theory Spec2Isabelle
  imports Complex_Main
begin

section \<open>JavaScript values used by the grade components\<close>

subsection \<open>Numbers of the upload components\<close>

text \<open>
  A JavaScript \<open>number\<close> as the upload components see it: the result of
  \<open>parseFloat\<close> on a cell is a finite value, an infinity or \<open>NaN\<close>.  A finite double is
  a rational, so \<open>Fin r\<close> carries its exact value; the components only compare such
  numbers with constants, they never calculate with them.
\<close>

datatype number = NaN | NegInf | Fin rat | PosInf

text \<open>\<open>x >= c\<close>, \<open>x < c\<close> and \<open>x > c\<close> for a finite constant \<open>c\<close>; every comparison
  with \<open>NaN\<close> is false.\<close>

fun num_ge :: "number \<Rightarrow> rat \<Rightarrow> bool" where
  "num_ge NaN c = False"
| "num_ge NegInf c = False"
| "num_ge (Fin r) c = (c \<le> r)"
| "num_ge PosInf c = True"

fun num_lt :: "number \<Rightarrow> rat \<Rightarrow> bool" where
  "num_lt NaN c = False"
| "num_lt NegInf c = True"
| "num_lt (Fin r) c = (r < c)"
| "num_lt PosInf c = False"

fun num_gt :: "number \<Rightarrow> rat \<Rightarrow> bool" where
  "num_gt NaN c = False"
| "num_gt NegInf c = False"
| "num_gt (Fin r) c = (c < r)"
| "num_gt PosInf c = True"

text \<open>\<open>!x\<close> on a number: true for \<open>0\<close> (and \<open>-0\<close>, which \<open>Fin 0\<close> stands for as
  well) and for \<open>NaN\<close>.\<close>

fun num_falsy :: "number \<Rightarrow> bool" where
  "num_falsy NaN = True"
| "num_falsy (Fin r) = (r = 0)"
| "num_falsy NegInf = False"
| "num_falsy PosInf = False"

subsection \<open>Arithmetic in doubles\<close>

text \<open>
  The report calculates with JavaScript numbers, which are IEEE 754 doubles: every
  sum, product and quotient is the exact result rounded to the nearest double, ties to
  the even significand.  A finite double is a rational, and \<open>dbl x\<close> is the double
  nearest to the rational \<open>x\<close>: 53 significant bits, with the fixed spacing
  \<open>2^-1074\<close> of the subnormal range at the bottom.  A number read from the backend
  arrives as the double nearest to the stored decimal, \<open>dbl\<close> of it.  The model has no
  largest double: it is exact for results below \<open>2^1024\<close>, which scores, credits, grade
  points and their totals in a report are by many orders of magnitude.
\<close>

text \<open>The number of binary digits of a positive integer.\<close>

function bit_length :: "int \<Rightarrow> int" where
  "bit_length n = (if n \<le> 0 then 0 else 1 + bit_length (n div 2))"
  by pat_completeness auto
termination
  by (relation "measure nat") auto

declare bit_length.simps [simp del]

text \<open>\<open>ilog2 x\<close> is the integer \<open>k\<close> with \<open>2^k \<le> x < 2^(k+1)\<close>, for \<open>x > 0\<close>.\<close>

definition ilog2 :: "rat \<Rightarrow> int" where
  "ilog2 x =
     (if 1 \<le> x then bit_length \<lfloor>x\<rfloor> - 1
      else - bit_length (\<lceil>1 / x\<rceil> - 1))"

definition pow2 :: "int \<Rightarrow> rat" where
  "pow2 e = (if 0 \<le> e then 2 ^ nat e else 1 / 2 ^ nat (- e))"

definition round_half_even :: "rat \<Rightarrow> int" where
  "round_half_even r =
     (let f = \<lfloor>r\<rfloor>; d = r - of_int f
      in if d < 1 / 2 then f else if 1 / 2 < d then f + 1 else if even f then f else f + 1)"

definition dbl :: "rat \<Rightarrow> rat" where
  "dbl x =
     (if x = 0 then 0
      else (let e = max (ilog2 \<bar>x\<bar> - 52) (- 1074);
                m = round_half_even (\<bar>x\<bar> / pow2 e)
            in sgn x * of_int m * pow2 e))"

subsection \<open>Strings\<close>

text \<open>A property read of type \<open>string | undefined\<close> is a \<open>string option\<close>.  \<open>!s\<close> holds
  for \<open>undefined\<close> and for the empty string; \<open>a || b\<close> is \<open>a\<close> unless \<open>a\<close> is falsy.\<close>

fun str_falsy :: "string option \<Rightarrow> bool" where
  "str_falsy None = True"
| "str_falsy (Some s) = (s = [])"

definition js_or :: "string option \<Rightarrow> string option \<Rightarrow> string option" where
  "js_or a b = (if str_falsy a then b else a)"


section \<open>Hard-coded letter grades of the entry paths\<close>

text \<open>\<open>getLetterGrade\<close> of the Excel upload component (ExcelGradeUpload).\<close>

definition getLetterGrade :: "number \<Rightarrow> string" where
  "getLetterGrade score =
     (if num_ge score 85 then ''A''
      else if num_ge score 80 then ''B+''
      else if num_ge score 75 then ''B''
      else if num_ge score 70 then ''B-''
      else if num_ge score 65 then ''C+''
      else if num_ge score 60 then ''C''
      else if num_ge score 55 then ''D''
      else ''E'')"

text \<open>\<open>getLetterGrade\<close> of the CSV upload component (GradeUpload): a second copy of
  the same function in another file.\<close>

definition getLetterGrade_csv :: "number \<Rightarrow> string" where
  "getLetterGrade_csv score =
     (if num_ge score 85 then ''A''
      else if num_ge score 80 then ''B+''
      else if num_ge score 75 then ''B''
      else if num_ge score 70 then ''B-''
      else if num_ge score 65 then ''C+''
      else if num_ge score 60 then ''C''
      else if num_ge score 55 then ''D''
      else ''E'')"

text \<open>\<open>calculateLetterGrade\<close> of the manual grade-entry component.\<close>

definition calculateLetterGrade :: "number \<Rightarrow> string" where
  "calculateLetterGrade score =
     (if num_ge score 85 then ''A''
      else if num_ge score 80 then ''A-''
      else if num_ge score 75 then ''B+''
      else if num_ge score 70 then ''B''
      else if num_ge score 65 then ''B-''
      else if num_ge score 60 then ''C+''
      else if num_ge score 55 then ''C''
      else if num_ge score 50 then ''C-''
      else if num_ge score 45 then ''D''
      else ''E'')"


section \<open>Tables of the backend\<close>

text \<open>
  The rows the components read, with the columns they use.  Several tables call their
  key \<open>id\<close>, \<open>name\<close> or \<open>curriculum\<close>; the fields carry a short table prefix where the
  plain name is taken (\<open>c_\<close> courses, \<open>s_\<close> students, \<open>gs_\<close> grading scales).  Row
  identifiers are database uuids, kept as strings.  Numeric columns (\<open>score\<close>,
  \<open>credits\<close>, \<open>min_score\<close>, \<open>max_score\<close>, \<open>grade_point\<close>) hold the exact decimals of
  the database, as rationals; the database compares them exactly, and the report
  receives each of them as a double (\<open>dbl\<close>).
\<close>

record Course =
  c_id :: string
  c_code :: string
  c_name :: string
  c_credits :: rat
  c_semester :: int
  c_curriculum :: string

record Student =
  s_id :: string
  s_nim :: string
  s_name :: string
  s_angkatan :: string

text \<open>A row of \<open>grades\<close>.  The score type is a parameter: the report reads database
  decimals (\<open>rat\<close>), the upload components write JavaScript numbers (\<open>number\<close>).\<close>

record 'n Grade =
  score :: 'n
  letter_grade :: string
  course_id :: string
  student_id :: string

record GradingScale =
  gs_curriculum :: string
  gs_letter_grade :: string
  min_score :: rat
  max_score :: rat
  gs_grade_point :: rat

text \<open>The backend as the components query it: each list holds the rows of one table
  as they are stored.\<close>

record 'n database =
  students_tbl :: "Student list"
  courses_tbl :: "Course list"
  grades_tbl :: "'n Grade list"
  grading_scales_tbl :: "GradingScale list"

text \<open>
  \<open>maybeSingle()\<close> of the query builder: the query must select zero or one row.  No row
  gives \<open>data = null\<close>, one row gives that row, and more than one row gives an error
  result whose \<open>data\<close> is \<open>null\<close> as well.  A request that fails altogether also
  resolves to \<open>data = null\<close> (the client returns errors, it does not throw), so \<open>None\<close>
  is every outcome without a row.
\<close>

definition maybeSingle :: "'a list \<Rightarrow> 'a option" where
  "maybeSingle rows = (case rows of [r] \<Rightarrow> Some r | _ \<Rightarrow> None)"

text \<open>
  \<open>.order(column)\<close> on a text column: the rows ascending by the column.  Texts are
  compared character by character by their codes, a proper prefix first (the order of
  digit strings in every collation); rows with equal texts keep their stored order.
\<close>

fun text_le :: "string \<Rightarrow> string \<Rightarrow> bool" where
  "text_le [] t = True"
| "text_le (c # s) [] = False"
| "text_le (c # s) (d # t) = (if c = d then text_le s t else (of_char c :: nat) < of_char d)"

fun order_insert :: "('a \<Rightarrow> string) \<Rightarrow> 'a \<Rightarrow> 'a list \<Rightarrow> 'a list" where
  "order_insert col row [] = [row]"
| "order_insert col row (r # rs) =
     (if text_le (col row) (col r) then row # r # rs else r # order_insert col row rs)"

definition order_by :: "('a \<Rightarrow> string) \<Rightarrow> 'a list \<Rightarrow> 'a list" where
  "order_by col rows = foldr (order_insert col) rows []"


section \<open>Resolving a grade from the grading scale\<close>

text \<open>The filter of all three lookups: the entries of the curriculum with
  \<open>min_score \<le> score \<le> max_score\<close>, in the order of the table.\<close>

definition covering :: "GradingScale list \<Rightarrow> rat \<Rightarrow> string \<Rightarrow> GradingScale list" where
  "covering scales sc curriculum =
     filter (\<lambda>g. gs_curriculum g = curriculum \<and> min_score g \<le> sc \<and> sc \<le> max_score g) scales"

text \<open>\<open>getGradePoint\<close> of the semester report: \<open>data?.grade_point || 0\<close> after
  \<open>maybeSingle()\<close>.  The score travels to the database as the shortest decimal that
  reads back as the same double, which for a decimal of up to 15 significant digits, as
  the scores of the table are, is the decimal itself; \<open>sc\<close> is that decimal, and the
  database compares it exactly.  The grade point comes back as a double.\<close>

definition getGradePoint :: "GradingScale list \<Rightarrow> rat \<Rightarrow> string \<Rightarrow> rat" where
  "getGradePoint scales sc curriculum =
     (case maybeSingle (covering scales sc curriculum) of
        None \<Rightarrow> 0
      | Some d \<Rightarrow> (if dbl (gs_grade_point d) = 0 then 0 else dbl (gs_grade_point d)))"

text \<open>
  The SQL functions \<open>get_letter_grade\<close> and \<open>get_grade_point\<close>.  \<open>SELECT ... LIMIT 1\<close>
  without \<open>ORDER BY\<close> returns one of the selected rows, and the text of the function
  does not say which: it is the first row the database's plan produces.  The number
  \<open>plan\<close> stands for that choice (\<open>limit_1\<close> takes the row at position \<open>plan\<close>, counted
  round the selected rows, so every selected row is the answer under some plan);
  \<open>COALESCE\<close> supplies the default when no row is selected.
\<close>

definition limit_1 :: "nat \<Rightarrow> 'a list \<Rightarrow> 'a option" where
  "limit_1 plan rows = (if rows = [] then None else Some (rows ! (plan mod length rows)))"

definition get_letter_grade :: "nat \<Rightarrow> GradingScale list \<Rightarrow> rat \<Rightarrow> string \<Rightarrow> string" where
  "get_letter_grade plan scales p_score p_curriculum =
     (case limit_1 plan (covering scales p_score p_curriculum) of
        None \<Rightarrow> ''E''
      | Some g \<Rightarrow> gs_letter_grade g)"

definition get_grade_point :: "nat \<Rightarrow> GradingScale list \<Rightarrow> rat \<Rightarrow> string \<Rightarrow> rat" where
  "get_grade_point plan scales p_score p_curriculum =
     (case limit_1 plan (covering scales p_score p_curriculum) of
        None \<Rightarrow> 0
      | Some g \<Rightarrow> gs_grade_point g)"

text \<open>The choice the specification words for overlapping entries, written from its
  sentence ("the first entry when scale entries are ordered by descending minScore"):
  \<open>g\<close> is such a first entry when it covers the score and no covering entry has a
  greater \<open>min_score\<close>.\<close>

definition highest_bracket :: "GradingScale list \<Rightarrow> rat \<Rightarrow> string \<Rightarrow> GradingScale \<Rightarrow> bool" where
  "highest_bracket scales sc curriculum g =
     (g \<in> set (covering scales sc curriculum) \<and>
      list_all (\<lambda>h. min_score h \<le> min_score g) (covering scales sc curriculum))"


section \<open>The semester report: aggregation and ranking\<close>

text \<open>The per-course entry and the per-student aggregate of \<open>loadReport\<close>
  (interface \<open>StudentGrade\<close>; \<open>cg_\<close> and \<open>sg_\<close> prefix the fields whose plain name a
  table row already has).\<close>

record CourseGrade =
  cg_score :: rat
  cg_letter_grade :: string
  grade_point :: rat
  credits :: rat

record StudentGrade =
  sg_student_id :: string
  nim :: string
  name :: string
  angkatan :: string
  courses :: "(string \<times> CourseGrade) list"
  totalScore :: rat
  totalGradePoint :: rat
  totalCredits :: rat
  gpa :: rat
  rank :: nat

text \<open>
  A JavaScript object used as a dictionary, as an association list in property order.
  The keys are uuids, never array indices, so the properties are enumerated in the
  order of their first assignment; assigning to an existing key replaces the value in
  place.  \<open>map_of\<close> reads a key and \<open>map snd\<close> is \<open>Object.values\<close>.
\<close>

fun obj_put :: "(string \<times> 'v) list \<Rightarrow> string \<Rightarrow> 'v \<Rightarrow> (string \<times> 'v) list" where
  "obj_put [] k v = [(k, v)]"
| "obj_put ((k', v') # m) k v = (if k' = k then (k, v) # m else (k', v') # obj_put m k v)"

record selection =
  selectedAngkatan :: string
  selectedSemester :: int
  curriculumFilter :: string

text \<open>The three places where \<open>loadReport\<close> shows an alert and returns without a
  report.\<close>

datatype alert = PilihAngkatanDanSemester | TidakAdaMataKuliah | TidakAdaMahasiswa

definition curriculum_of :: "selection \<Rightarrow> string" where
  "curriculum_of sel =
     (if curriculumFilter sel = [] then selectedAngkatan sel else curriculumFilter sel)"

definition coursesData :: "'n database \<Rightarrow> selection \<Rightarrow> Course list" where
  "coursesData db sel =
     order_by c_code
       (filter (\<lambda>c. c_semester c = selectedSemester sel \<and> c_curriculum c = curriculum_of sel)
          (courses_tbl db))"

definition studentsData :: "'n database \<Rightarrow> selection \<Rightarrow> Student list" where
  "studentsData db sel =
     order_by s_nim (filter (\<lambda>s. s_angkatan s = selectedAngkatan sel) (students_tbl db))"

definition gradesData :: "'n database \<Rightarrow> selection \<Rightarrow> 'n Grade list" where
  "gradesData db sel =
     filter (\<lambda>g. course_id g \<in> set (map c_id (coursesData db sel)) \<and>
                 student_id g \<in> set (map s_id (studentsData db sel)))
       (grades_tbl db)"

text \<open>The first loop: one zeroed entry per student, keyed by the student's id.\<close>

definition new_entry :: "Student \<Rightarrow> StudentGrade" where
  "new_entry student =
     \<lparr> sg_student_id = s_id student, nim = s_nim student, name = s_name student,
       angkatan = s_angkatan student, courses = [], totalScore = 0, totalGradePoint = 0,
       totalCredits = 0, gpa = 0, rank = 0 \<rparr>"

definition init_map :: "Student list \<Rightarrow> (string \<times> StudentGrade) list" where
  "init_map sts = foldl (\<lambda>m student. obj_put m (s_id student) (new_entry student)) [] sts"

text \<open>The body of the second loop, for one grade row.\<close>

definition add_grade ::
  "GradingScale list \<Rightarrow> string \<Rightarrow> Course list \<Rightarrow> (string \<times> StudentGrade) list \<Rightarrow> rat Grade
     \<Rightarrow> (string \<times> StudentGrade) list" where
  "add_grade scales curriculum cs m grade =
     (case find (\<lambda>c. c_id c = course_id grade) cs of
        None \<Rightarrow> m
      | Some course \<Rightarrow>
          (case map_of m (student_id grade) of
             None \<Rightarrow> m
           | Some sg \<Rightarrow>
               obj_put m (student_id grade)
                 (sg\<lparr>courses := obj_put (courses sg) (course_id grade)
                    \<lparr> cg_score = dbl (score grade), cg_letter_grade = letter_grade grade,
                      grade_point = getGradePoint scales (score grade) curriculum,
                      credits = dbl (c_credits course) \<rparr>\<rparr>)))"

text \<open>The \<open>map\<close> callback: the \<open>for ... in\<close> loop over the student's courses carries
  the three running totals, then the totals and the GPA are written into a copy of the
  entry.  Each \<open>+=\<close>, the product and the quotient are operations on doubles.\<close>

definition accumulate :: "rat \<times> rat \<times> rat \<Rightarrow> CourseGrade \<Rightarrow> rat \<times> rat \<times> rat" where
  "accumulate acc courseGrade =
     (case acc of (ts, tw, tc) \<Rightarrow>
        (dbl (ts + cg_score courseGrade),
         dbl (tw + dbl (grade_point courseGrade * credits courseGrade)),
         dbl (tc + credits courseGrade)))"

definition summarise :: "StudentGrade \<Rightarrow> StudentGrade" where
  "summarise student =
     (case foldl accumulate (0, 0, 0) (map snd (courses student)) of
        (ts, tw, tc) \<Rightarrow>
          student\<lparr> totalScore := ts, totalGradePoint := tw, totalCredits := tc,
                   gpa := (if tc > 0 then dbl (tw / tc) else 0) \<rparr>)"

text \<open>The comparator handed to \<open>sort\<close>: negative when \<open>a\<close> goes first.  The difference
  of two doubles, rounded, has the sign of the exact difference, which is all the sort
  uses.\<close>

definition compare_students :: "StudentGrade \<Rightarrow> StudentGrade \<Rightarrow> rat" where
  "compare_students a b =
     (if gpa b \<noteq> gpa a then gpa b - gpa a
      else if totalGradePoint b \<noteq> totalGradePoint a then totalGradePoint b - totalGradePoint a
      else totalScore b - totalScore a)"

text \<open>
  \<open>Array.prototype.sort\<close> with a comparator is a stable sort.  For a comparator that is
  a consistent ordering the stable result is unique, so any stable algorithm gives the
  array the engine gives; this one inserts each element, from the last to the first, in
  front of the first element it does not follow.
\<close>

fun place :: "('a \<Rightarrow> 'a \<Rightarrow> rat) \<Rightarrow> 'a \<Rightarrow> 'a list \<Rightarrow> 'a list" where
  "place cmp x [] = [x]"
| "place cmp x (y # ys) = (if cmp x y \<le> 0 then x # y # ys else y # place cmp x ys)"

definition js_sort :: "('a \<Rightarrow> 'a \<Rightarrow> rat) \<Rightarrow> 'a list \<Rightarrow> 'a list" where
  "js_sort cmp xs = foldr (place cmp) xs []"

text \<open>\<open>forEach((student, index) => student.rank = index + 1)\<close>, from a start index.\<close>

fun set_ranks :: "nat \<Rightarrow> StudentGrade list \<Rightarrow> StudentGrade list" where
  "set_ranks index [] = []"
| "set_ranks index (student # rest) = student\<lparr>rank := index + 1\<rparr> # set_ranks (index + 1) rest"

definition studentGradesMap :: "rat database \<Rightarrow> selection \<Rightarrow> (string \<times> StudentGrade) list" where
  "studentGradesMap db sel =
     foldl (add_grade (grading_scales_tbl db) (curriculum_of sel) (coursesData db sel))
       (init_map (studentsData db sel)) (gradesData db sel)"

definition studentsList :: "rat database \<Rightarrow> selection \<Rightarrow> StudentGrade list" where
  "studentsList db sel = map summarise (map snd (studentGradesMap db sel))"

text \<open>\<open>loadReport\<close>: the alert it stops with, or the list it stores with
  \<open>setStudentGrades\<close>.  A query without data (\<open>null\<close>) takes the same branch as an
  empty result.\<close>

definition loadReport :: "rat database \<Rightarrow> selection \<Rightarrow> alert + StudentGrade list" where
  "loadReport db sel =
     (if selectedAngkatan sel = [] \<or> selectedSemester sel = 0 then Inl PilihAngkatanDanSemester
      else if coursesData db sel = [] then Inl TidakAdaMataKuliah
      else if studentsData db sel = [] then Inl TidakAdaMahasiswa
      else Inr (set_ranks 0 (js_sort compare_students (studentsList db sel))))"


section \<open>Writing grades: the upsert and the upload components\<close>

text \<open>
  What the backend answers to an upsert is decided outside the components (row-level
  security, constraints of the table): the row is stored, the call returns an error
  with a message, or the awaited call throws (\<open>err.message\<close> when an \<open>Error\<close> was thrown).
  The components take this decision as a function of the row sent.
\<close>

datatype upsert_result = Stored | Refused string | Thrown "string option"

text \<open>\<open>upsert(row, {onConflict: 'student_id,course_id'})\<close> on a stored table: the row
  with the same pair is replaced, otherwise the row is added.\<close>

fun upsert :: "'n Grade list \<Rightarrow> 'n Grade \<Rightarrow> 'n Grade list" where
  "upsert [] g = [g]"
| "upsert (h # hs) g =
     (if student_id h = student_id g \<and> course_id h = course_id g then g # hs
      else h # upsert hs g)"

subsection \<open>Excel upload\<close>

datatype status = Pending | Success | Error

record UploadedRow =
  row_nim :: string
  courseCode :: string
  row_angkatan :: "string option"
  row_score :: number
  status :: status
  message :: "string option"

record excel_run =
  processedRows :: "UploadedRow list"
  successCount :: nat
  errorCount :: nat
  db_after :: "number database"

definition shown :: "string option \<Rightarrow> string" where
  "shown v = (case v of None \<Rightarrow> ''undefined'' | Some s \<Rightarrow> s)"

definition push_error :: "excel_run \<Rightarrow> UploadedRow \<Rightarrow> string \<Rightarrow> excel_run" where
  "push_error run row msg =
     run\<lparr> processedRows := processedRows run @ [row\<lparr>status := Error, message := Some msg\<rparr>],
          errorCount := errorCount run + 1 \<rparr>"

text \<open>The body of the loop of \<open>handleUpload\<close> for one row of the preview.\<close>

definition excel_row :: "(number Grade \<Rightarrow> upsert_result) \<Rightarrow> excel_run \<Rightarrow> UploadedRow \<Rightarrow> excel_run" where
  "excel_row backend run row =
     (if row_nim row = [] \<or> num_lt (row_score row) 0 \<or> num_gt (row_score row) 100
      then push_error run row ''NIM atau nilai tidak valid''
      else
        (case maybeSingle
               (filter (\<lambda>s. s_nim s = row_nim row \<and>
                             s_angkatan s = (case row_angkatan row of None \<Rightarrow> [] | Some a \<Rightarrow> a))
                  (students_tbl (db_after run))) of
          None \<Rightarrow>
            push_error run row
              (''Mahasiswa dengan NIM '' @ row_nim row @ '' angkatan '' @ shown (row_angkatan row)
                 @ '' tidak ditemukan'')
        | Some student \<Rightarrow>
            (if s_id student = [] then
              push_error run row
                (''Mahasiswa dengan NIM '' @ row_nim row @ '' angkatan '' @ shown (row_angkatan row)
                   @ '' tidak ditemukan'')
            else
              (case maybeSingle (filter (\<lambda>c. c_code c = courseCode row) (courses_tbl (db_after run))) of
                None \<Rightarrow> push_error run row (''Mata kuliah '' @ courseCode row @ '' tidak ditemukan'')
              | Some course \<Rightarrow>
                  (if c_id course = [] then
                    push_error run row (''Mata kuliah '' @ courseCode row @ '' tidak ditemukan'')
                  else
                    (let letterGrade = getLetterGrade (row_score row);
                         sent = \<lparr> score = row_score row, letter_grade = letterGrade,
                                  course_id = c_id course, student_id = s_id student \<rparr>
                     in (case backend sent of
                           Stored \<Rightarrow>
                             run\<lparr> processedRows := processedRows run @ [row\<lparr>status := Success\<rparr>],
                                  successCount := successCount run + 1,
                                  db_after := (db_after run)
                                    \<lparr>grades_tbl := upsert (grades_tbl (db_after run)) sent\<rparr> \<rparr>
                         | Refused msg \<Rightarrow> push_error run row msg
                         | Thrown e \<Rightarrow>
                             push_error run row
                               (case e of None \<Rightarrow> ''Unknown error'' | Some msg \<Rightarrow> msg))))))))"

text \<open>\<open>handleUpload\<close> of the Excel component: nothing happens for an empty preview
  (\<open>None\<close>); otherwise the loop runs over every row and the processed rows are
  stored.\<close>

definition handleUpload ::
  "(number Grade \<Rightarrow> upsert_result) \<Rightarrow> number database \<Rightarrow> UploadedRow list \<Rightarrow> excel_run option" where
  "handleUpload backend db preview =
     (if preview = [] then None
      else Some (foldl (excel_row backend)
                   \<lparr> processedRows = [], successCount = 0, errorCount = 0, db_after = db \<rparr>
                   preview))"


subsection \<open>CSV upload\<close>

text \<open>
  A parsed CSV row is a \<open>Record<string, string>\<close>: a partial map from the header
  names to the cells.  \<open>parseFloat\<close> is the language's builtin; the component is
  modelled for any such function, which it receives as \<open>parseFloat\<close>.
\<close>

record uploadStats =
  success :: nat
  failed :: nat

record csv_run =
  stats :: uploadStats
  csv_db :: "number database"

definition fail_row :: "csv_run \<Rightarrow> csv_run" where
  "fail_row run = run\<lparr>stats := (stats run)\<lparr>failed := failed (stats run) + 1\<rparr>\<rparr>"

text \<open>\<open>parseFloat(row['Nilai'] || row['score'] || '0')\<close>: the text handed to
  \<open>parseFloat\<close>.\<close>

definition score_text :: "(string \<rightharpoonup> string) \<Rightarrow> string" where
  "score_text row =
     (case js_or (js_or (row ''Nilai'') (row ''score'')) (Some ''0'') of
        None \<Rightarrow> ''0''
      | Some t \<Rightarrow> t)"

text \<open>The body of the loop of the CSV \<open>handleUpload\<close> for one row.\<close>

definition csv_row ::
  "(string \<Rightarrow> number) \<Rightarrow> (number Grade \<Rightarrow> upsert_result) \<Rightarrow> csv_run \<Rightarrow> (string \<rightharpoonup> string)
     \<Rightarrow> csv_run" where
  "csv_row parseFloat backend run row =
     (let nim = js_or (row ''NIM'') (row ''nim'');
          courseCode = js_or (row ''Kode Mata Kuliah'') (row ''course_code'');
          score = parseFloat (score_text row)
      in
        (if str_falsy nim \<or> str_falsy courseCode \<or> num_falsy score then fail_row run
         else
           (case maybeSingle (filter (\<lambda>s. Some (s_nim s) = nim) (students_tbl (csv_db run))) of
              None \<Rightarrow> fail_row run
            | Some student \<Rightarrow>
                (if s_id student = [] then fail_row run
                 else
                   (case maybeSingle
                           (filter (\<lambda>c. Some (c_code c) = courseCode) (courses_tbl (csv_db run))) of
                      None \<Rightarrow> fail_row run
                    | Some course \<Rightarrow>
                        (if c_id course = [] then fail_row run
                         else
                           (let letterGrade = getLetterGrade_csv score;
                                sent = \<lparr> score = score, letter_grade = letterGrade,
                                         course_id = c_id course, student_id = s_id student \<rparr>
                            in (case backend sent of
                                  Stored \<Rightarrow>
                                    \<lparr> stats = (stats run)\<lparr>success := success (stats run) + 1\<rparr>,
                                      csv_db = (csv_db run)
                                        \<lparr>grades_tbl := upsert (grades_tbl (csv_db run)) sent\<rparr> \<rparr>
                                | Refused msg \<Rightarrow> fail_row run
                                | Thrown e \<Rightarrow> fail_row run))))))))"

text \<open>The CSV \<open>handleUpload\<close> from the parsed rows on: the counters it hands to
  \<open>setUploadStats\<close> (the result message is made of the same two counters) and the
  backend after the run.\<close>

definition handleUpload_csv ::
  "(string \<Rightarrow> number) \<Rightarrow> (number Grade \<Rightarrow> upsert_result) \<Rightarrow> number database
     \<Rightarrow> (string \<rightharpoonup> string) list \<Rightarrow> csv_run" where
  "handleUpload_csv parseFloat backend db csvData =
     foldl (csv_row parseFloat backend) \<lparr> stats = \<lparr>success = 0, failed = 0\<rparr>, csv_db = db \<rparr> csvData"

subsection \<open>Manual grade entry\<close>

text \<open>\<open>gradesToSave\<close> of \<open>handleSaveGrades\<close>: the entries of \<open>gradeInputs\<close> whose text is
  not empty and converts to a number other than \<open>NaN\<close>, each with the letter of
  \<open>calculateLetterGrade\<close>.  \<open>Number\<close> is the language's conversion, a parameter as
  \<open>parseFloat\<close> is.\<close>

definition gradesToSave :: "(string \<Rightarrow> number) \<Rightarrow> string \<Rightarrow> (string \<times> string) list \<Rightarrow> number Grade list" where
  "gradesToSave Number selectedCourse gradeInputs =
     map (\<lambda>(studentId, sc).
            \<lparr> score = Number sc, letter_grade = calculateLetterGrade (Number sc),
              course_id = selectedCourse, student_id = studentId \<rparr>)
       (filter (\<lambda>(studentId, sc). sc \<noteq> [] \<and> Number sc \<noteq> NaN) gradeInputs)"

subsection \<open>A decimal reader for the examples\<close>

text \<open>
  The examples need a concrete \<open>parseFloat\<close>.  \<open>parseFloat_digits\<close> reads a text made
  of decimal digits only, as \<open>parseFloat\<close> and \<open>Number\<close> do for such short texts, and
  gives \<open>NaN\<close> for every other text of the examples.
\<close>

definition digit_of :: "char \<Rightarrow> nat option" where
  "digit_of =
     map_of [(CHR ''0'', 0), (CHR ''1'', 1), (CHR ''2'', 2), (CHR ''3'', 3), (CHR ''4'', 4),
             (CHR ''5'', 5), (CHR ''6'', 6), (CHR ''7'', 7), (CHR ''8'', 8), (CHR ''9'', 9)]"

fun digits_value :: "nat \<Rightarrow> string \<Rightarrow> nat option" where
  "digits_value acc [] = Some acc"
| "digits_value acc (c # cs) =
     (case digit_of c of None \<Rightarrow> None | Some d \<Rightarrow> digits_value (10 * acc + d) cs)"

definition parseFloat_digits :: "string \<Rightarrow> number" where
  "parseFloat_digits t =
     (if t = [] then NaN
      else (case digits_value 0 t of None \<Rightarrow> NaN | Some n \<Rightarrow> Fin (of_nat n)))"


section \<open>Notions used to state the properties\<close>

text \<open>The credits of the course a grade row refers to, as the loop finds and reads
  them (\<open>coursesData.find(c => c.id === grade.course_id)\<close>); \<open>0\<close> stands for a course
  that is not in scope, which the loop skips.\<close>

definition credits_of :: "Course list \<Rightarrow> string \<Rightarrow> rat" where
  "credits_of cs cid =
     (case find (\<lambda>c. c_id c = cid) cs of None \<Rightarrow> 0 | Some c \<Rightarrow> dbl (c_credits c))"

text \<open>The entry \<open>add_grade\<close> stores for a grade row whose course is in scope.\<close>

definition course_entry :: "GradingScale list \<Rightarrow> string \<Rightarrow> Course list \<Rightarrow> rat Grade \<Rightarrow> CourseGrade" where
  "course_entry scales curriculum cs g =
     \<lparr> cg_score = dbl (score g), cg_letter_grade = letter_grade g,
       grade_point = getGradePoint scales (score g) curriculum,
       credits = credits_of cs (course_id g) \<rparr>"

text \<open>The score records of one student in the scope of the report: the rows of
  \<open>gradesData\<close> with the student's id.\<close>

definition student_scores :: "rat database \<Rightarrow> selection \<Rightarrow> string \<Rightarrow> rat Grade list" where
  "student_scores db sel sid = filter (\<lambda>g. student_id g = sid) (gradesData db sel)"

text \<open>The \<open>+=\<close> loop over a list of doubles: the sum, rounded after every addition.\<close>

definition dsum :: "rat list \<Rightarrow> rat" where
  "dsum xs = foldl (\<lambda>t x. dbl (t + x)) 0 xs"

text \<open>The order of the specification: \<open>a\<close> is at least as good as \<open>b\<close> by GPA, then by
  total weighted grade point, then by total score.\<close>

definition keys_ge :: "StudentGrade \<Rightarrow> StudentGrade \<Rightarrow> bool" where
  "keys_ge a b =
     (gpa a > gpa b \<or>
      (gpa a = gpa b \<and>
        (totalGradePoint a > totalGradePoint b \<or>
         (totalGradePoint a = totalGradePoint b \<and> totalScore a \<ge> totalScore b))))"

text \<open>What the Excel loop makes of a row of the preview: the same row with a status and
  a message, where the status is \<open>Success\<close>, or \<open>Error\<close> with a message.\<close>

definition settled :: "UploadedRow \<Rightarrow> UploadedRow \<Rightarrow> bool" where
  "settled row r =
     (r = row\<lparr>status := status r, message := message r\<rparr> \<and>
      (status r = Success \<or> (status r = Error \<and> message r \<noteq> None)))"

subsection \<open>The example of the specification\<close>

text \<open>
  The scale A [85, 100] 4.0, B [70, 84.99] 3.0, E [0, 69.99] 0.0; the courses P (3
  credits) and Q (2 credits); student X with 90 in P and 72 in Q.  Student Y has the
  same two scores as X, and student Z has no score at all.  Short names stand for the
  uuids of the rows.
\<close>

definition ex_scales :: "GradingScale list" where
  "ex_scales =
     [\<lparr>gs_curriculum = ''2024'', gs_letter_grade = ''A'', min_score = 85, max_score = 100, gs_grade_point = 4\<rparr>,
      \<lparr>gs_curriculum = ''2024'', gs_letter_grade = ''B'', min_score = 70, max_score = 8499 / 100, gs_grade_point = 3\<rparr>,
      \<lparr>gs_curriculum = ''2024'', gs_letter_grade = ''E'', min_score = 0, max_score = 6999 / 100, gs_grade_point = 0\<rparr>]"

definition ex_db :: "rat database" where
  "ex_db =
     \<lparr> students_tbl =
         [\<lparr>s_id = ''X'', s_nim = ''001'', s_name = ''X'', s_angkatan = ''2024''\<rparr>,
          \<lparr>s_id = ''Y'', s_nim = ''002'', s_name = ''Y'', s_angkatan = ''2024''\<rparr>,
          \<lparr>s_id = ''Z'', s_nim = ''003'', s_name = ''Z'', s_angkatan = ''2024''\<rparr>],
       courses_tbl =
         [\<lparr>c_id = ''P'', c_code = ''IF101'', c_name = ''P'', c_credits = 3, c_semester = 1, c_curriculum = ''2024''\<rparr>,
          \<lparr>c_id = ''Q'', c_code = ''IF102'', c_name = ''Q'', c_credits = 2, c_semester = 1, c_curriculum = ''2024''\<rparr>],
       grades_tbl =
         [\<lparr>score = 90, letter_grade = ''A'', course_id = ''P'', student_id = ''X''\<rparr>,
          \<lparr>score = 72, letter_grade = ''B-'', course_id = ''Q'', student_id = ''X''\<rparr>,
          \<lparr>score = 90, letter_grade = ''A'', course_id = ''P'', student_id = ''Y''\<rparr>,
          \<lparr>score = 72, letter_grade = ''B-'', course_id = ''Q'', student_id = ''Y''\<rparr>],
       grading_scales_tbl = ex_scales \<rparr>"

definition ex_sel :: selection where
  "ex_sel = \<lparr>selectedAngkatan = ''2024'', selectedSemester = 1, curriculumFilter = []\<rparr>"

definition ex_courses :: "(string \<times> CourseGrade) list" where
  "ex_courses =
     [(''P'', \<lparr>cg_score = 90, cg_letter_grade = ''A'', grade_point = 4, credits = 3\<rparr>),
      (''Q'', \<lparr>cg_score = 72, cg_letter_grade = ''B-'', grade_point = 3, credits = 2\<rparr>)]"

text \<open>The report \<open>loadReport\<close> computes for the example (\<open>ex_report_eval\<close> below).\<close>

definition ex_report :: "StudentGrade list" where
  "ex_report =
     [\<lparr>sg_student_id = ''X'', nim = ''001'', name = ''X'', angkatan = ''2024'', courses = ex_courses,
        totalScore = 162, totalGradePoint = 18, totalCredits = 5, gpa = dbl (18 / 5), rank = 1\<rparr>,
      \<lparr>sg_student_id = ''Y'', nim = ''002'', name = ''Y'', angkatan = ''2024'', courses = ex_courses,
        totalScore = 162, totalGradePoint = 18, totalCredits = 5, gpa = dbl (18 / 5), rank = 2\<rparr>,
      \<lparr>sg_student_id = ''Z'', nim = ''003'', name = ''Z'', angkatan = ''2024'', courses = [],
        totalScore = 0, totalGradePoint = 0, totalCredits = 0, gpa = 0, rank = 3\<rparr>]"



subsection \<open>Further examples\<close>

text \<open>
  An example where doubles round: the entries A- [80, 84.99] 3.7 and B+ [75, 79.99] 3.3
  of the default scale, and student X with 82, 77 and 76 in courses of 3, 2 and 1
  credits.  The exact weighted sum is \<open>3.7 * 3 + 3.3 * 2 + 3.3 * 1 = 21\<close>.
\<close>

definition round_scales :: "GradingScale list" where
  "round_scales =
     [\<lparr>gs_curriculum = ''2024'', gs_letter_grade = ''A-'', min_score = 80, max_score = 8499 / 100, gs_grade_point = 37 / 10\<rparr>,
      \<lparr>gs_curriculum = ''2024'', gs_letter_grade = ''B+'', min_score = 75, max_score = 7999 / 100, gs_grade_point = 33 / 10\<rparr>]"

definition round_db :: "rat database" where
  "round_db =
     \<lparr> students_tbl = [\<lparr>s_id = ''X'', s_nim = ''001'', s_name = ''X'', s_angkatan = ''2024''\<rparr>],
       courses_tbl =
         [\<lparr>c_id = ''P'', c_code = ''IF101'', c_name = ''P'', c_credits = 3, c_semester = 1, c_curriculum = ''2024''\<rparr>,
          \<lparr>c_id = ''Q'', c_code = ''IF102'', c_name = ''Q'', c_credits = 2, c_semester = 1, c_curriculum = ''2024''\<rparr>,
          \<lparr>c_id = ''R'', c_code = ''IF103'', c_name = ''R'', c_credits = 1, c_semester = 1, c_curriculum = ''2024''\<rparr>],
       grades_tbl =
         [\<lparr>score = 82, letter_grade = ''A-'', course_id = ''P'', student_id = ''X''\<rparr>,
          \<lparr>score = 77, letter_grade = ''B+'', course_id = ''Q'', student_id = ''X''\<rparr>,
          \<lparr>score = 76, letter_grade = ''B+'', course_id = ''R'', student_id = ''X''\<rparr>],
       grading_scales_tbl = round_scales \<rparr>"

text \<open>The report \<open>loadReport\<close> computes for it (\<open>round_report_eval\<close> below): the stored
  total is \<open>21.000000000000004\<close> and the stored GPA is \<open>3.5000000000000004\<close>.\<close>

definition round_report :: "StudentGrade list" where
  "round_report =
     [\<lparr>sg_student_id = ''X'', nim = ''001'', name = ''X'', angkatan = ''2024'',
        courses =
          [(''P'', \<lparr>cg_score = 82, cg_letter_grade = ''A-'', grade_point = dbl (37 / 10), credits = 3\<rparr>),
           (''Q'', \<lparr>cg_score = 77, cg_letter_grade = ''B+'', grade_point = dbl (33 / 10), credits = 2\<rparr>),
           (''R'', \<lparr>cg_score = 76, cg_letter_grade = ''B+'', grade_point = dbl (33 / 10), credits = 1\<rparr>)],
        totalScore = 235, totalGradePoint = 21 + 1 / 2 ^ 48, totalCredits = 6,
        gpa = 7 / 2 + 1 / 2 ^ 51, rank = 1\<rparr>]"

text \<open>A scale with a gap between 75 and 79.99, and one student with the score 77.\<close>

definition gap_scales :: "GradingScale list" where
  "gap_scales =
     [\<lparr>gs_curriculum = ''2024'', gs_letter_grade = ''A'', min_score = 85, max_score = 100, gs_grade_point = 4\<rparr>,
      \<lparr>gs_curriculum = ''2024'', gs_letter_grade = ''A-'', min_score = 80, max_score = 8499 / 100, gs_grade_point = 37 / 10\<rparr>,
      \<lparr>gs_curriculum = ''2024'', gs_letter_grade = ''B'', min_score = 70, max_score = 7499 / 100, gs_grade_point = 3\<rparr>,
      \<lparr>gs_curriculum = ''2024'', gs_letter_grade = ''E'', min_score = 0, max_score = 6999 / 100, gs_grade_point = 0\<rparr>]"

definition gap_db :: "rat database" where
  "gap_db =
     \<lparr> students_tbl = [\<lparr>s_id = ''X'', s_nim = ''001'', s_name = ''X'', s_angkatan = ''2024''\<rparr>],
       courses_tbl =
         [\<lparr>c_id = ''P'', c_code = ''IF101'', c_name = ''P'', c_credits = 3, c_semester = 1, c_curriculum = ''2024''\<rparr>],
       grades_tbl = [\<lparr>score = 77, letter_grade = ''B'', course_id = ''P'', student_id = ''X''\<rparr>],
       grading_scales_tbl = gap_scales \<rparr>"

text \<open>Two entries that overlap on [85, 90], stored B first.\<close>

definition overlap_A :: GradingScale where
  "overlap_A = \<lparr>gs_curriculum = ''2024'', gs_letter_grade = ''A'', min_score = 85, max_score = 100, gs_grade_point = 4\<rparr>"

definition overlap_B :: GradingScale where
  "overlap_B = \<lparr>gs_curriculum = ''2024'', gs_letter_grade = ''B'', min_score = 70, max_score = 90, gs_grade_point = 3\<rparr>"

definition overlap_scales :: "GradingScale list" where
  "overlap_scales = [overlap_B, overlap_A]"

text \<open>The report \<open>loadReport\<close> computes for the scale with the gap
  (\<open>gap_report_eval\<close> below).\<close>

definition gap_report :: "StudentGrade list" where
  "gap_report =
     [\<lparr>sg_student_id = ''X'', nim = ''001'', name = ''X'', angkatan = ''2024'',
        courses = [(''P'', \<lparr>cg_score = 77, cg_letter_grade = ''B'', grade_point = 0, credits = 3\<rparr>)],
        totalScore = 77, totalGradePoint = 0, totalCredits = 3, gpa = 0, rank = 1\<rparr>]"


subsection \<open>Examples for the upload components\<close>

text \<open>A backend that stores every row it is sent, and the tables of the upload
  examples: student X with NIM 001 of angkatan 2024, course P with code IF101, no grade
  yet.\<close>

definition always_stored :: "number Grade \<Rightarrow> upsert_result" where
  "always_stored g = Stored"

definition up_db :: "number database" where
  "up_db =
     \<lparr> students_tbl = [\<lparr>s_id = ''X'', s_nim = ''001'', s_name = ''X'', s_angkatan = ''2024''\<rparr>],
       courses_tbl =
         [\<lparr>c_id = ''P'', c_code = ''IF101'', c_name = ''P'', c_credits = 3, c_semester = 1, c_curriculum = ''2024''\<rparr>],
       grades_tbl = [],
       grading_scales_tbl = ex_scales \<rparr>"

text \<open>Rows of a CSV file with the header \<open>NIM,Kode Mata Kuliah,Nilai\<close>.\<close>

definition csv_line :: "string \<Rightarrow> string \<Rightarrow> string \<Rightarrow> (string \<rightharpoonup> string)" where
  "csv_line n c v = [''NIM'' \<mapsto> n, ''Kode Mata Kuliah'' \<mapsto> c, ''Nilai'' \<mapsto> v]"

text \<open>A row of an Excel preview for course code IF101 and angkatan 2024.\<close>

definition preview_row :: "string \<Rightarrow> number \<Rightarrow> UploadedRow" where
  "preview_row n v =
     \<lparr>row_nim = n, courseCode = ''IF101'', row_angkatan = Some ''2024'', row_score = v,
       status = Pending, message = None\<rparr>"


section \<open>Properties of the semester report\<close>

lemma dbl_values:
  "dbl 72 = 72" "dbl 76 = 76" "dbl 77 = 77" "dbl 82 = 82" "dbl 90 = 90"
  "dbl (18 / 5) = 8106479329266893 / 2 ^ 51"
  by code_simp+

lemma foldl_accumulate:
  "foldl accumulate (a, b, c) xs =
     (foldl (\<lambda>t x. dbl (t + cg_score x)) a xs,
      foldl (\<lambda>t x. dbl (t + dbl (grade_point x * credits x))) b xs,
      foldl (\<lambda>t x. dbl (t + credits x)) c xs)"
  by (induction xs arbitrary: a b c) (simp_all add: accumulate_def)

lemma summarise_fields:
  "totalScore (summarise s) = foldl (\<lambda>t x. dbl (t + cg_score x)) 0 (map snd (courses s))"
  "totalGradePoint (summarise s) =
     foldl (\<lambda>t x. dbl (t + dbl (grade_point x * credits x))) 0 (map snd (courses s))"
  "totalCredits (summarise s) = foldl (\<lambda>t x. dbl (t + credits x)) 0 (map snd (courses s))"
  "gpa (summarise s) =
     (if totalCredits (summarise s) > 0
      then dbl (totalGradePoint (summarise s) / totalCredits (summarise s)) else 0)"
  "sg_student_id (summarise s) = sg_student_id s"
  "courses (summarise s) = courses s"
  by (simp_all add: summarise_def foldl_accumulate)



lemma length_set_ranks: "length (set_ranks k xs) = length xs"
  by (induction k xs rule: set_ranks.induct) simp_all

lemma nth_set_ranks:
  "i < length xs \<Longrightarrow> set_ranks k xs ! i = (xs ! i)\<lparr>rank := k + i + 1\<rparr>"
proof (induction k xs arbitrary: i rule: set_ranks.induct)
  case (1 index)
  then show ?case by simp
next
  case (2 index student rest)
  then show ?case by (cases i) simp_all
qed

lemma in_set_ranks:
  "a \<in> set (set_ranks k xs) \<Longrightarrow> \<exists>s r. s \<in> set xs \<and> a = s\<lparr>rank := r\<rparr>"
  by (induction k xs rule: set_ranks.induct) auto

lemma set_place: "set (place cmp x ys) = insert x (set ys)"
  by (induction ys) auto

lemma set_js_sort: "set (js_sort cmp xs) = set xs"
  by (induction xs) (simp_all add: js_sort_def set_place)

lemma length_place: "length (place cmp x ys) = Suc (length ys)"
  by (induction ys) auto

lemma length_js_sort: "length (js_sort cmp xs) = length xs"
  by (induction xs) (simp_all add: js_sort_def length_place)

lemma sorted_place:
  assumes tot: "\<And>a b. cmp a b \<le> 0 \<or> cmp b a \<le> 0"
    and tr: "\<And>a b c. cmp a b \<le> 0 \<Longrightarrow> cmp b c \<le> 0 \<Longrightarrow> cmp a c \<le> 0"
  shows "sorted_wrt (\<lambda>a b. cmp a b \<le> 0) ys \<Longrightarrow> sorted_wrt (\<lambda>a b. cmp a b \<le> 0) (place cmp x ys)"
proof (induction ys)
  case Nil
  then show ?case by simp
next
  case (Cons y ys)
  show ?case
  proof (cases "cmp x y \<le> 0")
    case True
    with Cons.prems tr show ?thesis by auto
  next
    case False
    with tot have "cmp y x \<le> 0" by blast
    with False Cons show ?thesis by (auto simp: set_place)
  qed
qed

lemma sorted_js_sort:
  assumes tot: "\<And>a b. cmp a b \<le> 0 \<or> cmp b a \<le> 0"
    and tr: "\<And>a b c. cmp a b \<le> 0 \<Longrightarrow> cmp b c \<le> 0 \<Longrightarrow> cmp a c \<le> 0"
  shows "sorted_wrt (\<lambda>a b. cmp a b \<le> 0) (js_sort cmp xs)"
proof (induction xs)
  case Nil
  then show ?case by (simp add: js_sort_def)
next
  case (Cons x xs)
  have "js_sort cmp (x # xs) = place cmp x (js_sort cmp xs)" by (simp add: js_sort_def)
  with Cons sorted_place[of cmp, OF tot tr] show ?case by simp
qed

lemma compare_students_le: "compare_students a b \<le> 0 \<longleftrightarrow> keys_ge a b"
  by (auto simp: compare_students_def keys_ge_def)

lemma keys_ge_total: "keys_ge a b \<or> keys_ge b a"
  by (auto simp: keys_ge_def)

lemma keys_ge_trans: "keys_ge a b \<Longrightarrow> keys_ge b c \<Longrightarrow> keys_ge a c"
  by (auto simp: keys_ge_def)

lemma sorted_students: "sorted_wrt keys_ge (js_sort compare_students xs)"
proof -
  have "sorted_wrt (\<lambda>a b. compare_students a b \<le> 0) (js_sort compare_students xs)"
    by (rule sorted_js_sort) (auto simp: compare_students_le keys_ge_total intro: keys_ge_trans)
  then show ?thesis by (simp add: compare_students_le)
qed


lemma map_of_obj_put: "map_of (obj_put m k v) = (map_of m)(k \<mapsto> v)"
  by (induction m) auto

lemma keys_obj_put:
  "map fst (obj_put m k v) = (if k \<in> fst ` set m then map fst m else map fst m @ [k])"
  by (induction m) force+

lemma obj_put_fresh: "k \<notin> fst ` set m \<Longrightarrow> obj_put m k v = m @ [(k, v)]"
  by (induction m) auto

lemma distinct_obj_put: "distinct (map fst m) \<Longrightarrow> distinct (map fst (obj_put m k v))"
  by (simp add: keys_obj_put)

lemma add_grade_found:
  assumes "find (\<lambda>c. c_id c = course_id g) cs = Some c"
  shows "add_grade scales cur cs m g =
     (case map_of m (student_id g) of
        None \<Rightarrow> m
      | Some sg \<Rightarrow> obj_put m (student_id g)
          (sg\<lparr>courses := obj_put (courses sg) (course_id g) (course_entry scales cur cs g)\<rparr>))"
  using assms by (simp add: add_grade_def course_entry_def credits_of_def split: option.splits)

lemma keys_add_grade: "map fst (add_grade scales cur cs m g) = map fst m"
proof (cases "find (\<lambda>c. c_id c = course_id g) cs")
  case None
  then show ?thesis by (simp add: add_grade_def)
next
  case (Some c)
  show ?thesis
  proof (cases "map_of m (student_id g)")
    case None
    with Some show ?thesis by (simp add: add_grade_def)
  next
    case (Some sg)
    then have "student_id g \<in> fst ` set m" using map_of_SomeD[of m "student_id g" sg] by force
    with Some \<open>find _ cs = Some c\<close> show ?thesis
      by (simp add: add_grade_found keys_obj_put)
  qed
qed

lemma map_of_add_grade:
  assumes "find (\<lambda>c. c_id c = course_id g) cs \<noteq> None"
  shows "map_of (add_grade scales cur cs m g) k =
     (if k = student_id g
      then map_option (\<lambda>sg. sg\<lparr>courses := obj_put (courses sg) (course_id g) (course_entry scales cur cs g)\<rparr>)
             (map_of m k)
      else map_of m k)"
proof -
  from assms obtain c where c: "find (\<lambda>c. c_id c = course_id g) cs = Some c" by auto
  show ?thesis
    by (cases "map_of m (student_id g)") (simp_all add: add_grade_found[OF c] map_of_obj_put)
qed

lemma keys_grades_loop: "map fst (foldl (add_grade scales cur cs) m gs) = map fst m"
  by (induction gs arbitrary: m) (simp_all add: keys_add_grade)

lemma map_of_grades_loop:
  assumes "\<forall>g\<in>set gs. find (\<lambda>c. c_id c = course_id g) cs \<noteq> None"
  shows "map_of (foldl (add_grade scales cur cs) m gs) k =
     map_option
       (\<lambda>sg. sg\<lparr>courses :=
                 foldl (\<lambda>d g. obj_put d (course_id g) (course_entry scales cur cs g)) (courses sg)
                   (filter (\<lambda>g. student_id g = k) gs)\<rparr>)
       (map_of m k)"
  using assms
proof (induction gs arbitrary: m)
  case Nil
  show ?case by (cases "map_of m k") simp_all
next
  case (Cons g gs)
  then have found: "find (\<lambda>c. c_id c = course_id g) cs \<noteq> None"
    and rest: "\<forall>g\<in>set gs. find (\<lambda>c. c_id c = course_id g) cs \<noteq> None" by simp_all
  show ?case
  proof (cases "k = student_id g")
    case True
    note ih = Cons.IH[OF rest, of "add_grade scales cur cs m g", unfolded True]
    note st = map_of_add_grade[OF found, of scales cur m "student_id g"]
    show ?thesis unfolding True
      by (cases "map_of m (student_id g)") (simp_all add: ih st)
  next
    case False
    then show ?thesis
      by (simp add: Cons.IH[OF rest] map_of_add_grade[OF found])
  qed
qed

lemma courses_loop_fresh:
  assumes "distinct (map course_id gs)" "course_id ` set gs \<inter> fst ` set d = {}"
  shows "foldl (\<lambda>d g. obj_put d (course_id g) (e g)) d gs = d @ map (\<lambda>g. (course_id g, e g)) gs"
  using assms
proof (induction gs arbitrary: d)
  case Nil
  then show ?case by simp
next
  case (Cons g gs)
  from Cons.prems have fresh: "course_id g \<notin> fst ` set d" by auto
  have step: "obj_put d (course_id g) (e g) = d @ [(course_id g, e g)]"
    by (rule obj_put_fresh[OF fresh])
  from Cons.prems have "distinct (map course_id gs)"
    and "course_id ` set gs \<inter> fst ` set (d @ [(course_id g, e g)]) = {}" by auto
  from Cons.IH[OF this] step show ?case by simp
qed


lemma set_obj_put_subset: "set (obj_put m k v) \<subseteq> insert (k, v) (set m)"
  by (induction m) (auto split: if_splits)

lemma keyset_obj_put: "fst ` set (obj_put m k v) = insert k (fst ` set m)"
proof -
  have "set (map fst (obj_put m k v)) = insert k (set (map fst m))"
    by (simp only: keys_obj_put) auto
  then show ?thesis by simp
qed

lemma init_loop_entries:
  "(k, v) \<in> set (foldl (\<lambda>m student. obj_put m (s_id student) (new_entry student)) m sts) \<Longrightarrow>
     (k, v) \<in> set m \<or> (\<exists>s\<in>set sts. k = s_id s \<and> v = new_entry s)"
proof (induction sts arbitrary: m)
  case Nil
  then show ?case by simp
next
  case (Cons s sts)
  from Cons.IH[of "obj_put m (s_id s) (new_entry s)"] Cons.prems
  have "(k, v) \<in> set (obj_put m (s_id s) (new_entry s)) \<or> (\<exists>s\<in>set sts. k = s_id s \<and> v = new_entry s)"
    by simp
  with set_obj_put_subset[of m "s_id s" "new_entry s"] show ?case by auto
qed

lemma init_loop_keys:
  "set (map fst (foldl (\<lambda>m student. obj_put m (s_id student) (new_entry student)) m sts)) =
     fst ` set m \<union> s_id ` set sts"
proof (induction sts arbitrary: m)
  case Nil
  then show ?case by simp
next
  case (Cons s sts)
  have "set (map fst (foldl (\<lambda>m student. obj_put m (s_id student) (new_entry student))
                (obj_put m (s_id s) (new_entry s)) sts)) =
        fst ` set (obj_put m (s_id s) (new_entry s)) \<union> s_id ` set sts"
    by (rule Cons.IH)
  then show ?case by (simp add: keyset_obj_put)
qed

lemma init_loop_distinct:
  "distinct (map fst m) \<Longrightarrow>
     distinct (map fst (foldl (\<lambda>m student. obj_put m (s_id student) (new_entry student)) m sts))"
  by (induction sts arbitrary: m) (simp_all add: distinct_obj_put)

lemma init_map_entries:
  "(k, v) \<in> set (init_map sts) \<Longrightarrow> \<exists>s\<in>set sts. k = s_id s \<and> v = new_entry s"
  using init_loop_entries[of k v "[]" sts] by (simp add: init_map_def)

lemma init_map_keys: "set (map fst (init_map sts)) = s_id ` set sts"
  using init_loop_keys[of "[]" sts] by (simp add: init_map_def)

lemma distinct_init_map: "distinct (map fst (init_map sts))"
  using init_loop_distinct[of "[]" sts] by (simp add: init_map_def)

lemma gradesData_found:
  "g \<in> set (gradesData db sel) \<Longrightarrow> find (\<lambda>c. c_id c = course_id g) (coursesData db sel) \<noteq> None"
  by (auto simp: gradesData_def find_None_iff)

lemma keys_studentGradesMap:
  "map fst (studentGradesMap db sel) = map fst (init_map (studentsData db sel))"
  by (simp add: studentGradesMap_def keys_grades_loop)

lemma studentGradesMap_entry:
  assumes "(k, v) \<in> set (studentGradesMap db sel)"
  shows "\<exists>s\<in>set (studentsData db sel). k = s_id s \<and>
           v = (new_entry s)\<lparr>courses :=
                 foldl (\<lambda>d g. obj_put d (course_id g)
                          (course_entry (grading_scales_tbl db) (curriculum_of sel) (coursesData db sel) g))
                   [] (student_scores db sel k)\<rparr>"
proof -
  have dist: "distinct (map fst (studentGradesMap db sel))"
    by (simp add: keys_studentGradesMap distinct_init_map)
  with assms have look: "map_of (studentGradesMap db sel) k = Some v" by simp
  have found: "\<forall>g\<in>set (gradesData db sel).
      find (\<lambda>c. c_id c = course_id g) (coursesData db sel) \<noteq> None"
    by (simp add: gradesData_found)
  from look map_of_grades_loop[OF found, of "grading_scales_tbl db" "curriculum_of sel"
      "init_map (studentsData db sel)" k]
  obtain v0 where v0: "map_of (init_map (studentsData db sel)) k = Some v0"
    and v: "v = v0\<lparr>courses :=
                 foldl (\<lambda>d g. obj_put d (course_id g)
                          (course_entry (grading_scales_tbl db) (curriculum_of sel) (coursesData db sel) g))
                   (courses v0) (student_scores db sel k)\<rparr>"
    by (auto simp: studentGradesMap_def student_scores_def)
  from v0 have "(k, v0) \<in> set (init_map (studentsData db sel))" by (rule map_of_SomeD)
  then obtain s where s: "s \<in> set (studentsData db sel)" "k = s_id s" "v0 = new_entry s"
    using init_map_entries by blast
  have "courses (new_entry s) = []" by (simp add: new_entry_def)
  with s v show ?thesis by auto
qed

lemma report_entry:
  assumes "loadReport db sel = Inr out" "a \<in> set out"
  shows "\<exists>k v r. (k, v) \<in> set (studentGradesMap db sel) \<and> a = (summarise v)\<lparr>rank := r\<rparr>"
proof -
  from assms(1) have out: "out = set_ranks 0 (js_sort compare_students (studentsList db sel))"
    by (simp add: loadReport_def split: if_splits)
  with assms(2) in_set_ranks obtain s r
    where "s \<in> set (js_sort compare_students (studentsList db sel))" "a = s\<lparr>rank := r\<rparr>" by blast
  then have "s \<in> set (studentsList db sel)" by (simp add: set_js_sort)
  then obtain k v where "(k, v) \<in> set (studentGradesMap db sel)" "s = summarise v"
    by (auto simp: studentsList_def)
  with \<open>a = s\<lparr>rank := r\<rparr>\<close> show ?thesis by blast
qed


lemma ex_report_eval: "loadReport ex_db ex_sel = Inr ex_report"
  by code_simp

lemma round_report_eval: "loadReport round_db ex_sel = Inr round_report"
  by code_simp

lemma distinct_student_scores:
  assumes "distinct (map (\<lambda>g. (student_id g, course_id g)) (grades_tbl db))"
  shows "distinct (map course_id (student_scores db sel k))"
proof -
  let ?G = "student_scores db sel k"
  have G: "?G = filter (\<lambda>g. student_id g = k \<and> course_id g \<in> set (map c_id (coursesData db sel)) \<and>
                 student_id g \<in> set (map s_id (studentsData db sel))) (grades_tbl db)"
    by (auto simp: student_scores_def gradesData_def intro: filter_cong)
  from assms have "distinct (map (\<lambda>g. (student_id g, course_id g)) ?G)"
    unfolding G by (rule distinct_map_filter)
  then have d: "distinct ?G" and inj: "inj_on (\<lambda>g. (student_id g, course_id g)) (set ?G)"
    by (simp_all add: distinct_map)
  have "inj_on course_id (set ?G)"
  proof (rule inj_onI)
    fix x y assume "x \<in> set ?G" "y \<in> set ?G" "course_id x = course_id y"
    moreover from this have "student_id x = student_id y" by (simp add: student_scores_def)
    ultimately show "x = y" using inj by (auto dest: inj_onD)
  qed
  with d show ?thesis by (simp add: distinct_map)
qed

lemma entry_courses:
  assumes "(k, v) \<in> set (studentGradesMap db sel)"
    and "distinct (map (\<lambda>g. (student_id g, course_id g)) (grades_tbl db))"
  shows "sg_student_id v = k"
    and "map snd (courses v) =
           map (course_entry (grading_scales_tbl db) (curriculum_of sel) (coursesData db sel))
             (student_scores db sel k)"
proof -
  let ?e = "course_entry (grading_scales_tbl db) (curriculum_of sel) (coursesData db sel)"
  from studentGradesMap_entry[OF assms(1)] obtain s where
    s: "k = s_id s"
    and v: "v = (new_entry s)\<lparr>courses :=
              foldl (\<lambda>d g. obj_put d (course_id g) (?e g)) [] (student_scores db sel k)\<rparr>"
    by blast
  from s v show "sg_student_id v = k" by (simp add: new_entry_def)
  have "foldl (\<lambda>d g. obj_put d (course_id g) (?e g)) [] (student_scores db sel k) =
        [] @ map (\<lambda>g. (course_id g, ?e g)) (student_scores db sel k)"
    by (rule courses_loop_fresh) (simp_all add: distinct_student_scores[OF assms(2)])
  with v show "map snd (courses v) = map ?e (student_scores db sel k)"
    by (simp add: comp_def)
qed

text \<open>
  The claim C1 as the specification states it (totals equal to the sums) fails where
  doubles round: for grade points 3.7, 3.3, 3.3 and credits 3, 2, 1 the products of the
  stored grade points and credits add up to exactly 21, as do the decimals, but the
  report stores \<open>totalGradePoint = 21.000000000000004\<close>, the nearest double above 21.
\<close>

theorem exact_sum_counterexample:
  "loadReport round_db ex_sel = Inr round_report \<and>
   totalGradePoint (round_report ! 0) = 21 + 1 / 2 ^ 48 \<and>
   sum_list (map (\<lambda>(cid, c). grade_point c * credits c) (courses (round_report ! 0))) = 21 \<and>
   (37 / 10) * 3 + (33 / 10) * 2 + (33 / 10) * 1 = (21 :: rat)"
proof -
  have "sum_list (map (\<lambda>(cid, c). grade_point c * credits c) (courses (round_report ! 0))) = 21"
    by code_simp
  then show ?thesis by (simp add: round_report_eval) (simp add: round_report_def)
qed

text \<open>
  Claim C1, as amended.  For every aggregate of a report, when no two grade rows share
  their (student, course) pair, the totals are the sums the loop computes in doubles
  over the student's score rows in scope, in their order: \<open>totalScore\<close> adds the scores,
  \<open>totalGradePoint\<close> adds the products of the resolved grade point and the credits of the
  row's course, \<open>totalCredits\<close> adds these credits, and every product and every partial
  sum is rounded to the nearest double.  For the example of the specification the first
  aggregate is X with P resolved to 4, Q to 3, \<open>totalGradePoint = 18\<close>, \<open>totalCredits = 5\<close>
  and \<open>gpa\<close> the double \<open>3.6\<close>.
\<close>

theorem aggregate_totals:
  "(\<forall>db sel out a.
      loadReport db sel = Inr out \<and> a \<in> set out \<and>
      distinct (map (\<lambda>g. (student_id g, course_id g)) (grades_tbl db)) \<longrightarrow>
        totalScore a =
          dsum (map (\<lambda>g. dbl (score g)) (student_scores db sel (sg_student_id a))) \<and>
        totalGradePoint a =
          dsum (map (\<lambda>g. dbl (getGradePoint (grading_scales_tbl db) (score g) (curriculum_of sel) *
                                credits_of (coursesData db sel) (course_id g)))
                  (student_scores db sel (sg_student_id a))) \<and>
        totalCredits a =
          dsum (map (\<lambda>g. credits_of (coursesData db sel) (course_id g))
                  (student_scores db sel (sg_student_id a))))
   \<and> (case loadReport ex_db ex_sel of
         Inl stop \<Rightarrow> False
       | Inr out \<Rightarrow>
           sg_student_id (out ! 0) = ''X'' \<and>
           map (\<lambda>(cid, c). (cid, cg_score c, grade_point c, credits c)) (courses (out ! 0)) =
             [(''P'', 90, 4, 3), (''Q'', 72, 3, 2)] \<and>
           totalGradePoint (out ! 0) = 18 \<and> totalCredits (out ! 0) = 5 \<and>
           gpa (out ! 0) = dbl (36 / 10))"
proof (intro conjI allI impI)
  fix db sel out a
  assume asm: "loadReport db sel = Inr out \<and> a \<in> set out \<and>
      distinct (map (\<lambda>g. (student_id g, course_id g)) (grades_tbl db))"
  then obtain k v r where kv: "(k, v) \<in> set (studentGradesMap db sel)"
    and a: "a = (summarise v)\<lparr>rank := r\<rparr>"
    using report_entry by blast
  from asm have dist: "distinct (map (\<lambda>g. (student_id g, course_id g)) (grades_tbl db))" by simp
  have id: "sg_student_id a = k"
    using a entry_courses(1)[OF kv dist] by (simp add: summarise_fields)
  note cs = entry_courses(2)[OF kv dist]
  have "totalScore a = dsum (map (\<lambda>g. dbl (score g)) (student_scores db sel k))"
    using a by (simp add: summarise_fields cs dsum_def foldl_map course_entry_def)
  then show "totalScore a =
      dsum (map (\<lambda>g. dbl (score g)) (student_scores db sel (sg_student_id a)))"
    unfolding id .
  have "totalGradePoint a =
          dsum (map (\<lambda>g. dbl (getGradePoint (grading_scales_tbl db) (score g) (curriculum_of sel) *
                                credits_of (coursesData db sel) (course_id g)))
                  (student_scores db sel k))"
    using a by (simp add: summarise_fields cs dsum_def foldl_map course_entry_def)
  then show "totalGradePoint a =
          dsum (map (\<lambda>g. dbl (getGradePoint (grading_scales_tbl db) (score g) (curriculum_of sel) *
                                credits_of (coursesData db sel) (course_id g)))
                  (student_scores db sel (sg_student_id a)))"
    unfolding id .
  have "totalCredits a =
          dsum (map (\<lambda>g. credits_of (coursesData db sel) (course_id g))
                  (student_scores db sel k))"
    using a by (simp add: summarise_fields cs dsum_def foldl_map course_entry_def)
  then show "totalCredits a =
          dsum (map (\<lambda>g. credits_of (coursesData db sel) (course_id g))
                  (student_scores db sel (sg_student_id a)))"
    unfolding id .
next
  show "case loadReport ex_db ex_sel of
         Inl stop \<Rightarrow> False
       | Inr out \<Rightarrow>
           sg_student_id (out ! 0) = ''X'' \<and>
           map (\<lambda>(cid, c). (cid, cg_score c, grade_point c, credits c)) (courses (out ! 0)) =
             [(''P'', 90, 4, 3), (''Q'', 72, 3, 2)] \<and>
           totalGradePoint (out ! 0) = 18 \<and> totalCredits (out ! 0) = 5 \<and>
           gpa (out ! 0) = dbl (36 / 10)"
    by (simp add: ex_report_eval ex_report_def ex_courses_def)
qed

lemma ex_scores_X: "map score (student_scores ex_db ex_sel ''X'') = [90, 72]"
  by code_simp

theorem aggregate_totals_witness:
  "loadReport ex_db ex_sel = Inr ex_report \<and> ex_report ! 0 \<in> set ex_report \<and>
   distinct (map (\<lambda>g. (student_id g, course_id g)) (grades_tbl ex_db)) \<and>
   map score (student_scores ex_db ex_sel ''X'') = [90, 72] \<and>
   totalScore (ex_report ! 0) =
     dsum (map (\<lambda>g. dbl (score g)) (student_scores ex_db ex_sel ''X'')) \<and>
   totalScore (ex_report ! 0) = 162"
proof -
  have pre: "loadReport ex_db ex_sel = Inr ex_report \<and> ex_report ! 0 \<in> set ex_report \<and>
      distinct (map (\<lambda>g. (student_id g, course_id g)) (grades_tbl ex_db))"
    by (simp add: ex_report_eval) (simp add: ex_report_def ex_db_def)
  have id: "sg_student_id (ex_report ! 0) = ''X''" by (simp add: ex_report_def)
  from aggregate_totals have
    "totalScore (ex_report ! 0) =
       dsum (map (\<lambda>g. dbl (score g)) (student_scores ex_db ex_sel (sg_student_id (ex_report ! 0))))"
    using pre by blast
  moreover have "totalScore (ex_report ! 0) = 162" by (simp add: ex_report_def)
  ultimately show ?thesis using pre id ex_scores_X by simp
qed

lemma report_shape:
  "loadReport db sel = Inr out \<Longrightarrow>
     out = set_ranks 0 (js_sort compare_students (studentsList db sel))"
  by (simp add: loadReport_def split: if_splits)

text \<open>
  The claim C2 as the specification states it (\<open>gpa\<close> equal to the quotient) fails where
  the division rounds: the aggregate of the rounding example stores
  \<open>totalGradePoint = 21.000000000000004\<close>, \<open>totalCredits = 6\<close> and
  \<open>gpa = 3.5000000000000004\<close>, which is not the quotient of the two stored totals.
\<close>

theorem exact_quotient_counterexample:
  "loadReport round_db ex_sel = Inr round_report \<and>
   totalGradePoint (round_report ! 0) = 21 + 1 / 2 ^ 48 \<and>
   totalCredits (round_report ! 0) = 6 \<and>
   gpa (round_report ! 0) = 7 / 2 + 1 / 2 ^ 51 \<and>
   gpa (round_report ! 0) \<noteq> totalGradePoint (round_report ! 0) / totalCredits (round_report ! 0)"
  by (simp add: round_report_eval) (simp add: round_report_def)

text \<open>
  Claim C2, as amended.  Every aggregate of a report has \<open>gpa\<close> equal to
  \<open>totalGradePoint / totalCredits\<close> rounded to the nearest double when
  \<open>totalCredits > 0\<close>, and \<open>gpa = 0\<close> when \<open>totalCredits\<close> is \<open>0\<close> (or negative).
\<close>

theorem gpa_invariant:
  assumes "loadReport db sel = Inr out" and "a \<in> set out"
  shows "(totalCredits a > 0 \<longrightarrow> gpa a = dbl (totalGradePoint a / totalCredits a)) \<and>
         (totalCredits a \<le> 0 \<longrightarrow> gpa a = 0)"
proof -
  from report_entry[OF assms] obtain k v r where a: "a = (summarise v)\<lparr>rank := r\<rparr>" by blast
  have "gpa a = (if totalCredits a > 0 then dbl (totalGradePoint a / totalCredits a) else 0)"
    unfolding a using summarise_fields(4)[of v] by simp
  then show ?thesis by simp
qed

theorem gpa_invariant_witness:
  "loadReport ex_db ex_sel = Inr ex_report \<and>
   ex_report ! 0 \<in> set ex_report \<and> totalCredits (ex_report ! 0) = 5 \<and>
   gpa (ex_report ! 0) = dbl (totalGradePoint (ex_report ! 0) / totalCredits (ex_report ! 0)) \<and>
   ex_report ! 2 \<in> set ex_report \<and> totalCredits (ex_report ! 2) = 0 \<and> gpa (ex_report ! 2) = 0"
proof -
  have m0: "ex_report ! 0 \<in> set ex_report" and m2: "ex_report ! 2 \<in> set ex_report"
    by (simp_all add: ex_report_def)
  have c0: "totalCredits (ex_report ! 0) = 5" and c2: "totalCredits (ex_report ! 2) = 0"
    by (simp_all add: ex_report_def)
  from gpa_invariant[OF ex_report_eval m0] c0
  have g0: "gpa (ex_report ! 0) =
      dbl (totalGradePoint (ex_report ! 0) / totalCredits (ex_report ! 0))"
    by simp
  from gpa_invariant[OF ex_report_eval m2] c2 have g2: "gpa (ex_report ! 2) = 0" by simp
  from ex_report_eval m0 m2 c0 c2 g0 g2 show ?thesis by blast
qed

lemma keys_ge_rank [simp]: "keys_ge (a\<lparr>rank := r\<rparr>) (b\<lparr>rank := q\<rparr>) = keys_ge a b"
  by (simp add: keys_ge_def)

lemma sorted_set_ranks: "sorted_wrt keys_ge xs \<Longrightarrow> sorted_wrt keys_ge (set_ranks k xs)"
  by (simp add: sorted_wrt_iff_nth_less length_set_ranks nth_set_ranks)

lemma report_nth:
  assumes "loadReport db sel = Inr out" and "i < length out"
  shows "rank (out ! i) = i + 1"
proof -
  note out = report_shape[OF assms(1)]
  from assms(2) have "i < length (js_sort compare_students (studentsList db sel))"
    by (simp add: out length_set_ranks)
  then show ?thesis by (simp add: out nth_set_ranks)
qed

lemma report_sorted:
  assumes "loadReport db sel = Inr out"
  shows "sorted_wrt keys_ge out"
  unfolding report_shape[OF assms] by (rule sorted_set_ranks) (rule sorted_students)

text \<open>
  Claim C3.  The report is sorted best first by GPA, then total weighted grade point,
  then total score; and of any two aggregates of the report the one with the greater
  GPA has the smaller rank.
\<close>

theorem ranking_order:
  assumes "loadReport db sel = Inr out"
  shows "sorted_wrt keys_ge out \<and>
         (\<forall>a\<in>set out. \<forall>b\<in>set out. gpa a > gpa b \<longrightarrow> rank a < rank b)"
proof (intro conjI ballI impI)
  show srt: "sorted_wrt keys_ge out" by (rule report_sorted[OF assms])
  fix a b assume "a \<in> set out" "b \<in> set out" and gt: "gpa a > gpa b"
  then obtain i j where i: "i < length out" "a = out ! i" and j: "j < length out" "b = out ! j"
    by (metis in_set_conv_nth)
  have "\<not> j < i"
  proof
    assume "j < i"
    with srt i have "keys_ge (out ! j) (out ! i)" by (simp add: sorted_wrt_iff_nth_less)
    then have "gpa (out ! j) \<ge> gpa (out ! i)" by (auto simp: keys_ge_def)
    with gt i j show False by simp
  qed
  moreover from gt i j have "i \<noteq> j" by auto
  ultimately have "i < j" by simp
  with report_nth[OF assms i(1)] report_nth[OF assms j(1)] i j show "rank a < rank b" by simp
qed

text \<open>
  Claim C4.  The ranks of a report are 1, 2, 3, ... by position: no two positions share
  a rank and each position's rank is the previous one plus one, whatever the keys of the
  two aggregates are.
\<close>

theorem sequential_ranks:
  assumes "loadReport db sel = Inr out"
  shows "map rank out = map Suc [0..<length out] \<and>
         (\<forall>i j. i < length out \<and> j < length out \<and> i \<noteq> j \<longrightarrow> rank (out ! i) \<noteq> rank (out ! j)) \<and>
         (\<forall>i. Suc i < length out \<longrightarrow> rank (out ! Suc i) = rank (out ! i) + 1)"
proof (intro conjI allI impI)
  show "map rank out = map Suc [0..<length out]"
  proof (rule nth_equalityI)
    show "length (map rank out) = length (map Suc [0..<length out])" by simp
    fix i assume "i < length (map rank out)"
    then have i: "i < length out" by simp
    then show "map rank out ! i = map Suc [0..<length out] ! i"
      using report_nth[OF assms i] by simp
  qed
next
  fix i j assume "i < length out \<and> j < length out \<and> i \<noteq> j"
  then show "rank (out ! i) \<noteq> rank (out ! j)"
    using report_nth[OF assms, of i] report_nth[OF assms, of j] by simp
next
  fix i assume "Suc i < length out"
  then show "rank (out ! Suc i) = rank (out ! i) + 1"
    using report_nth[OF assms, of i] report_nth[OF assms, of "Suc i"] by simp
qed


theorem ranking_order_witness:
  "loadReport ex_db ex_sel = Inr ex_report \<and> sorted_wrt keys_ge ex_report \<and>
   ex_report ! 0 \<in> set ex_report \<and> ex_report ! 2 \<in> set ex_report \<and>
   gpa (ex_report ! 0) > gpa (ex_report ! 2) \<and> rank (ex_report ! 0) < rank (ex_report ! 2)"
proof -
  have m: "ex_report ! 0 \<in> set ex_report" "ex_report ! 2 \<in> set ex_report"
    by (simp_all add: ex_report_def)
  have g: "gpa (ex_report ! 0) > gpa (ex_report ! 2)" by (simp add: ex_report_def dbl_values)
  from ranking_order[OF ex_report_eval] m g
  have "sorted_wrt keys_ge ex_report" and "rank (ex_report ! 0) < rank (ex_report ! 2)"
    by blast+
  with ex_report_eval m g show ?thesis by blast
qed

theorem sequential_ranks_witness:
  "loadReport ex_db ex_sel = Inr ex_report \<and>
   gpa (ex_report ! 0) = dbl (36 / 10) \<and> gpa (ex_report ! 1) = dbl (36 / 10) \<and>
   totalGradePoint (ex_report ! 0) = 18 \<and> totalGradePoint (ex_report ! 1) = 18 \<and>
   totalScore (ex_report ! 0) = 162 \<and> totalScore (ex_report ! 1) = 162 \<and>
   map rank ex_report = [1, 2, 3] \<and>
   rank (ex_report ! 1) = rank (ex_report ! 0) + 1"
proof -
  have len: "Suc 0 < length ex_report" by (simp add: ex_report_def)
  from sequential_ranks[OF ex_report_eval] len
  have "rank (ex_report ! Suc 0) = rank (ex_report ! 0) + 1" by blast
  then show ?thesis by (simp add: ex_report_eval) (simp add: ex_report_def)
qed

lemma ids_set_ranks: "map sg_student_id (set_ranks k xs) = map sg_student_id xs"
  by (induction k xs rule: set_ranks.induct) simp_all

lemma distinct_map_place:
  "distinct (map f (place cmp x ys)) = (f x \<notin> f ` set ys \<and> distinct (map f ys))"
  by (induction ys) (auto simp: set_place)

lemma distinct_map_js_sort: "distinct (map f (js_sort cmp xs)) = distinct (map f xs)"
proof (induction xs)
  case Nil
  then show ?case by (simp add: js_sort_def)
next
  case (Cons x xs)
  have "js_sort cmp (x # xs) = place cmp x (js_sort cmp xs)" by (simp add: js_sort_def)
  with Cons show ?case by (simp add: distinct_map_place set_js_sort)
qed

lemma ids_studentsList:
  "map sg_student_id (studentsList db sel) = map fst (studentGradesMap db sel)"
proof -
  have "\<And>p. p \<in> set (studentGradesMap db sel) \<Longrightarrow> sg_student_id (summarise (snd p)) = fst p"
  proof -
    fix p assume "p \<in> set (studentGradesMap db sel)"
    then have "(fst p, snd p) \<in> set (studentGradesMap db sel)" by simp
    from studentGradesMap_entry[OF this] show "sg_student_id (summarise (snd p)) = fst p"
      by (auto simp: summarise_fields new_entry_def)
  qed
  then show ?thesis by (simp add: studentsList_def)
qed

lemma report_ids:
  assumes "loadReport db sel = Inr out"
  shows "set (map sg_student_id out) = s_id ` set (studentsData db sel)"
    and "distinct (map sg_student_id out)"
proof -
  note out = report_shape[OF assms]
  have "set (map sg_student_id out) = sg_student_id ` set (studentsList db sel)"
    by (simp add: out ids_set_ranks set_js_sort)
  also have "\<dots> = set (map sg_student_id (studentsList db sel))" by simp
  also have "\<dots> = s_id ` set (studentsData db sel)"
    by (simp only: ids_studentsList keys_studentGradesMap init_map_keys)
  finally show "set (map sg_student_id out) = s_id ` set (studentsData db sel)" .
  have "distinct (map sg_student_id (studentsList db sel))"
    by (simp only: ids_studentsList keys_studentGradesMap distinct_init_map)
  then show "distinct (map sg_student_id out)"
    by (simp add: out ids_set_ranks distinct_map_js_sort)
qed







section \<open>Properties of the grade resolution\<close>

lemma gap_covering: "covering gap_scales 77 ''2024'' = []"
  by (simp add: covering_def gap_scales_def)

lemma gap_report_eval: "loadReport gap_db ex_sel = Inr gap_report"
  by code_simp

lemma no_cover_defaults:
  "covering scales sc cur = [] \<Longrightarrow>
     getGradePoint scales sc cur = 0 \<and> get_grade_point plan scales sc cur = 0 \<and>
     get_letter_grade plan scales sc cur = ''E''"
  by (simp add: getGradePoint_def get_grade_point_def get_letter_grade_def maybeSingle_def
      limit_1_def)

text \<open>
  The claim C5 as the specification states it (an explicit "no grade resolvable"
  condition, the record rejected, no default) fails for the score 77 and a scale without
  an entry between 75 and 79.99: the grade point is \<open>0\<close>, the letter is \<open>E\<close>, and the
  report holds the record with grade point \<open>0\<close>.
\<close>

theorem gap_defaults_counterexample:
  "covering gap_scales 77 ''2024'' = [] \<and>
   getGradePoint gap_scales 77 ''2024'' = 0 \<and>
   get_grade_point 0 gap_scales 77 ''2024'' = 0 \<and>
   get_letter_grade 0 gap_scales 77 ''2024'' = ''E'' \<and>
   loadReport gap_db ex_sel = Inr gap_report \<and>
   map (\<lambda>a. (sg_student_id a, map (\<lambda>(cid, c). (cid, cg_score c, grade_point c)) (courses a),
              totalGradePoint a, gpa a)) gap_report =
     [(''X'', [(''P'', 77, 0)], 0, 0)]"
  using no_cover_defaults[OF gap_covering, of 0]
  by (simp add: gap_covering gap_report_eval) (simp add: gap_report_def)

lemma report_has_student:
  assumes "loadReport db sel = Inr out" and "g \<in> set (gradesData db sel)"
  shows "\<exists>a\<in>set out. sg_student_id a = student_id g"
proof -
  from assms(2) have "student_id g \<in> s_id ` set (studentsData db sel)"
    by (auto simp: gradesData_def)
  then have "student_id g \<in> set (map sg_student_id out)"
    by (simp only: report_ids(1)[OF assms(1)])
  then show ?thesis by auto
qed

text \<open>
  Claim C5, as amended.  When no grading-scale entry of the curriculum covers a score (a
  gap in the scale, or no scale at all), the resolution defaults silently: \<open>getGradePoint\<close>
  and \<open>get_grade_point\<close> give \<open>0\<close> and \<open>get_letter_grade\<close> gives \<open>E\<close>.  The record is not
  rejected: in a report (grade rows with distinct (student, course) pairs) it is an entry
  of its student's aggregate, with grade point \<open>0\<close>.
\<close>

theorem unresolved_grade_defaults:
  "(covering scales sc cur = [] \<longrightarrow>
      getGradePoint scales sc cur = 0 \<and> get_grade_point plan scales sc cur = 0 \<and>
      get_letter_grade plan scales sc cur = ''E'') \<and>
   (loadReport db sel = Inr out \<and>
    distinct (map (\<lambda>g. (student_id g, course_id g)) (grades_tbl db)) \<and>
    g \<in> set (gradesData db sel) \<and>
    covering (grading_scales_tbl db) (score g) (curriculum_of sel) = [] \<longrightarrow>
      (\<exists>a\<in>set out. sg_student_id a = student_id g \<and>
         \<lparr>cg_score = dbl (score g), cg_letter_grade = letter_grade g, grade_point = 0,
           credits = credits_of (coursesData db sel) (course_id g)\<rparr> \<in> set (map snd (courses a))))"
proof (rule conjI; rule impI)
  assume "covering scales sc cur = []"
  then show "getGradePoint scales sc cur = 0 \<and> get_grade_point plan scales sc cur = 0 \<and>
      get_letter_grade plan scales sc cur = ''E''"
    by (rule no_cover_defaults)
next
  assume asm: "loadReport db sel = Inr out \<and>
    distinct (map (\<lambda>g. (student_id g, course_id g)) (grades_tbl db)) \<and>
    g \<in> set (gradesData db sel) \<and>
    covering (grading_scales_tbl db) (score g) (curriculum_of sel) = []"
  then have out: "loadReport db sel = Inr out"
    and dist: "distinct (map (\<lambda>g. (student_id g, course_id g)) (grades_tbl db))"
    and g: "g \<in> set (gradesData db sel)"
    and gap: "covering (grading_scales_tbl db) (score g) (curriculum_of sel) = []" by simp_all
  from report_has_student[OF out g] obtain a where a: "a \<in> set out" "sg_student_id a = student_id g"
    by blast
  from report_entry[OF out a(1)] obtain k v r
    where kv: "(k, v) \<in> set (studentGradesMap db sel)" and av: "a = (summarise v)\<lparr>rank := r\<rparr>"
    by blast
  have k: "k = student_id g"
    using a(2) av entry_courses(1)[OF kv dist] by (simp add: summarise_fields)
  from g k have "g \<in> set (student_scores db sel k)" by (simp add: student_scores_def)
  then have "course_entry (grading_scales_tbl db) (curriculum_of sel) (coursesData db sel) g
      \<in> set (map snd (courses v))"
    by (simp only: entry_courses(2)[OF kv dist]) simp
  then have "course_entry (grading_scales_tbl db) (curriculum_of sel) (coursesData db sel) g
      \<in> set (map snd (courses a))"
    using av by (simp add: summarise_fields)
  moreover have "course_entry (grading_scales_tbl db) (curriculum_of sel) (coursesData db sel) g =
      \<lparr>cg_score = dbl (score g), cg_letter_grade = letter_grade g, grade_point = 0,
        credits = credits_of (coursesData db sel) (course_id g)\<rparr>"
    using gap by (simp add: course_entry_def getGradePoint_def maybeSingle_def)
  ultimately have "\<lparr>cg_score = dbl (score g), cg_letter_grade = letter_grade g, grade_point = 0,
           credits = credits_of (coursesData db sel) (course_id g)\<rparr> \<in> set (map snd (courses a))"
    by simp
  with a show "\<exists>a\<in>set out. sg_student_id a = student_id g \<and>
         \<lparr>cg_score = dbl (score g), cg_letter_grade = letter_grade g, grade_point = 0,
           credits = credits_of (coursesData db sel) (course_id g)\<rparr> \<in> set (map snd (courses a))"
    by blast
qed

lemma gap_scope:
  "\<lparr>score = 77, letter_grade = ''B'', course_id = ''P'', student_id = ''X''\<rparr>
     \<in> set (gradesData gap_db ex_sel)"
  "covering (grading_scales_tbl gap_db) 77 (curriculum_of ex_sel) = []"
  by code_simp+

theorem unresolved_grade_defaults_witness:
  "covering gap_scales 77 ''2024'' = [] \<and>
   getGradePoint gap_scales 77 ''2024'' = 0 \<and>
   get_letter_grade 0 gap_scales 77 ''2024'' = ''E'' \<and>
   loadReport gap_db ex_sel = Inr gap_report \<and>
   distinct (map (\<lambda>g. (student_id g, course_id g)) (grades_tbl gap_db)) \<and>
   \<lparr>score = 77, letter_grade = ''B'', course_id = ''P'', student_id = ''X''\<rparr>
     \<in> set (gradesData gap_db ex_sel) \<and>
   (\<exists>a. a \<in> set gap_report \<and> sg_student_id a = ''X'' \<and>
      \<lparr>cg_score = 77, cg_letter_grade = ''B'', grade_point = 0,
        credits = credits_of (coursesData gap_db ex_sel) ''P''\<rparr> \<in> set (map snd (courses a)))"
proof -
  let ?g = "\<lparr>score = 77, letter_grade = ''B'', course_id = ''P'', student_id = ''X''\<rparr> :: rat Grade"
  have d: "distinct (map (\<lambda>g. (student_id g, course_id g)) (grades_tbl gap_db))"
    by (simp add: gap_db_def)
  have g: "?g \<in> set (gradesData gap_db ex_sel)" by (rule gap_scope)
  have c: "covering (grading_scales_tbl gap_db) (score ?g) (curriculum_of ex_sel) = []"
    by (simp add: gap_scope)
  note inst = unresolved_grade_defaults[of gap_scales 77 "''2024''" 0 gap_db ex_sel gap_report ?g]
  from inst gap_covering have first: "getGradePoint gap_scales 77 ''2024'' = 0 \<and>
      get_letter_grade 0 gap_scales 77 ''2024'' = ''E''" by blast
  from inst gap_report_eval d g c
  have "\<exists>a\<in>set gap_report. sg_student_id a = student_id ?g \<and>
         \<lparr>cg_score = dbl (score ?g), cg_letter_grade = letter_grade ?g, grade_point = 0,
           credits = credits_of (coursesData gap_db ex_sel) (course_id ?g)\<rparr> \<in> set (map snd (courses a))"
    by blast
  then have "\<exists>a. a \<in> set gap_report \<and> sg_student_id a = ''X'' \<and>
      \<lparr>cg_score = 77, cg_letter_grade = ''B'', grade_point = 0,
        credits = credits_of (coursesData gap_db ex_sel) ''P''\<rparr> \<in> set (map snd (courses a))"
    by (simp add: Bex_def dbl_values)
  with first gap_covering gap_report_eval d g show ?thesis by blast
qed

lemma overlap_covering: "covering overlap_scales 87 ''2024'' = [overlap_B, overlap_A]"
  by (simp add: covering_def overlap_scales_def overlap_A_def overlap_B_def)

lemma limit_1_member:
  "rows \<noteq> [] \<Longrightarrow> \<exists>r\<in>set rows. limit_1 plan rows = Some r"
  by (simp add: limit_1_def)

lemma getGradePoint_overlap:
  "2 \<le> length (covering scales sc cur) \<Longrightarrow> getGradePoint scales sc cur = 0"
  by (cases "covering scales sc cur" rule: list.exhaust)
     (auto simp: getGradePoint_def maybeSingle_def split: list.splits)

text \<open>
  The claim C6 as the specification states it fails for the score 87 and the entries
  B [70, 90] and A [85, 100]: both cover the score, the entry with the greatest
  \<open>min_score\<close> is A with grade point 4, but \<open>getGradePoint\<close> gives \<open>0\<close>; and the SQL
  functions give B under the plan that yields the row with the lowest \<open>min_score\<close> first.
\<close>

theorem highest_bracket_counterexample:
  "covering overlap_scales 87 ''2024'' = [overlap_B, overlap_A] \<and>
   highest_bracket overlap_scales 87 ''2024'' overlap_A \<and>
   gs_letter_grade overlap_A = ''A'' \<and> gs_grade_point overlap_A = 4 \<and>
   getGradePoint overlap_scales 87 ''2024'' = 0 \<and>
   get_grade_point 0 overlap_scales 87 ''2024'' = 3 \<and>
   get_letter_grade 0 overlap_scales 87 ''2024'' = ''B''"
  by (simp add: overlap_covering highest_bracket_def getGradePoint_def get_grade_point_def
      get_letter_grade_def maybeSingle_def limit_1_def) (simp add: overlap_A_def overlap_B_def)

text \<open>
  Claim C6, as amended.  When exactly one entry of the curriculum covers the score,
  \<open>getGradePoint\<close> returns its grade point (as a double) and the SQL functions return its
  grade point and letter.  When more than one entry covers the score, \<open>getGradePoint\<close>,
  whose query accepts at most one row, returns \<open>0\<close> and so prefers no entry; the SQL
  functions return the grade point and the letter of one of the covering entries.
\<close>

theorem overlap_resolution:
  "(covering scales sc cur = [g] \<longrightarrow>
      getGradePoint scales sc cur = dbl (gs_grade_point g) \<and>
      get_grade_point plan scales sc cur = gs_grade_point g \<and>
      get_letter_grade plan scales sc cur = gs_letter_grade g) \<and>
   (2 \<le> length (covering scales sc cur) \<longrightarrow>
      getGradePoint scales sc cur = 0 \<and>
      (\<exists>h\<in>set (covering scales sc cur).
         get_grade_point plan scales sc cur = gs_grade_point h \<and>
         get_letter_grade plan scales sc cur = gs_letter_grade h))"
proof (rule conjI; rule impI)
  assume "covering scales sc cur = [g]"
  then show "getGradePoint scales sc cur = dbl (gs_grade_point g) \<and>
      get_grade_point plan scales sc cur = gs_grade_point g \<and>
      get_letter_grade plan scales sc cur = gs_letter_grade g"
    by (simp add: getGradePoint_def get_grade_point_def get_letter_grade_def maybeSingle_def
        limit_1_def)
next
  assume two: "2 \<le> length (covering scales sc cur)"
  then have "covering scales sc cur \<noteq> []" by auto
  from limit_1_member[OF this, of plan] obtain h
    where h: "h \<in> set (covering scales sc cur)"
      "limit_1 plan (covering scales sc cur) = Some h" by blast
  then have "get_grade_point plan scales sc cur = gs_grade_point h \<and>
      get_letter_grade plan scales sc cur = gs_letter_grade h"
    by (simp add: get_grade_point_def get_letter_grade_def)
  with h(1) getGradePoint_overlap[OF two]
  show "getGradePoint scales sc cur = 0 \<and>
      (\<exists>h\<in>set (covering scales sc cur).
         get_grade_point plan scales sc cur = gs_grade_point h \<and>
         get_letter_grade plan scales sc cur = gs_letter_grade h)"
    by blast
qed

lemma dbl_4: "dbl 4 = 4"
  by code_simp

theorem overlap_resolution_witness:
  "covering ex_scales 90 ''2024'' = [hd ex_scales] \<and>
   getGradePoint ex_scales 90 ''2024'' = 4 \<and> get_letter_grade 0 ex_scales 90 ''2024'' = ''A'' \<and>
   covering overlap_scales 87 ''2024'' = [overlap_B, overlap_A] \<and>
   2 \<le> length (covering overlap_scales 87 ''2024'') \<and>
   getGradePoint overlap_scales 87 ''2024'' = 0 \<and>
   (\<exists>h. h \<in> set (covering overlap_scales 87 ''2024'') \<and>
        get_grade_point 0 overlap_scales 87 ''2024'' = gs_grade_point h)"
proof -
  have one: "covering ex_scales 90 ''2024'' = [hd ex_scales]"
    by (simp add: covering_def ex_scales_def)
  have hd: "gs_grade_point (hd ex_scales) = 4" "gs_letter_grade (hd ex_scales) = ''A''"
    by (simp_all add: ex_scales_def)
  from overlap_resolution[of ex_scales 90 "''2024''" "hd ex_scales" 0] one hd
  have a: "getGradePoint ex_scales 90 ''2024'' = 4 \<and> get_letter_grade 0 ex_scales 90 ''2024'' = ''A''"
    by (simp add: dbl_4)
  have two: "2 \<le> length (covering overlap_scales 87 ''2024'')"
    by (simp add: overlap_covering)
  from overlap_resolution[of overlap_scales 87 "''2024''" _ 0] two
  have b: "getGradePoint overlap_scales 87 ''2024'' = 0 \<and>
      (\<exists>h. h \<in> set (covering overlap_scales 87 ''2024'') \<and>
        get_grade_point 0 overlap_scales 87 ''2024'' = gs_grade_point h)" by blast
  from one a b two overlap_covering show ?thesis by simp
qed

section \<open>Properties of the upload components\<close>

lemma set_upsert: "set (upsert gs g) \<subseteq> insert g (set gs)"
  by (induction gs) auto

lemma push_error_result:
  "processedRows (push_error run row msg) = processedRows run @ [row\<lparr>status := Error, message := Some msg\<rparr>]"
  "successCount (push_error run row msg) = successCount run"
  "errorCount (push_error run row msg) = errorCount run + 1"
  "db_after (push_error run row msg) = db_after run"
  by (simp_all add: push_error_def)

lemma settled_error: "settled row (row\<lparr>status := Error, message := Some msg\<rparr>)"
  by (simp add: settled_def)

lemma settled_success: "settled row (row\<lparr>status := Success\<rparr>)"
  by (simp add: settled_def)

lemma excel_row_result:
  "\<exists>r. processedRows (excel_row backend run row) = processedRows run @ [r] \<and> settled row r \<and>
       successCount (excel_row backend run row) + errorCount (excel_row backend run row) =
         successCount run + errorCount run + 1"
  by (simp add: excel_row_def Let_def push_error_result settled_error settled_success
      split: option.splits upsert_result.splits)

lemma excel_row_stored:
  assumes "g \<in> set (grades_tbl (db_after (excel_row backend run row)))"
  shows "g \<in> set (grades_tbl (db_after run)) \<or>
         (letter_grade g = getLetterGrade (score g) \<and> score g = row_score row \<and>
          \<not> num_lt (score g) 0 \<and> \<not> num_gt (score g) 100)"
  using assms set_upsert
  by (fastforce simp: excel_row_def Let_def push_error_result
      split: option.splits upsert_result.splits if_splits)

lemma excel_loop_result:
  "\<exists>outs. processedRows (foldl (excel_row backend) run rows) = processedRows run @ outs \<and>
          list_all2 settled rows outs \<and>
          successCount (foldl (excel_row backend) run rows) +
            errorCount (foldl (excel_row backend) run rows) =
          successCount run + errorCount run + length rows"
proof (induction rows arbitrary: run)
  case Nil
  then show ?case by simp
next
  case (Cons row rows)
  from excel_row_result[of backend run row] obtain r where
    r: "processedRows (excel_row backend run row) = processedRows run @ [r]" "settled row r"
      "successCount (excel_row backend run row) + errorCount (excel_row backend run row) =
         successCount run + errorCount run + 1" by blast
  from Cons.IH[of "excel_row backend run row"] obtain outs where
    outs: "processedRows (foldl (excel_row backend) (excel_row backend run row) rows) =
             processedRows (excel_row backend run row) @ outs"
      "list_all2 settled rows outs"
      "successCount (foldl (excel_row backend) (excel_row backend run row) rows) +
         errorCount (foldl (excel_row backend) (excel_row backend run row) rows) =
       successCount (excel_row backend run row) + errorCount (excel_row backend run row) + length rows"
    by blast
  have "processedRows (foldl (excel_row backend) run (row # rows)) = processedRows run @ (r # outs)"
    using r(1) outs(1) by simp
  moreover have "list_all2 settled (row # rows) (r # outs)" using r(2) outs(2) by simp
  moreover have "successCount (foldl (excel_row backend) run (row # rows)) +
            errorCount (foldl (excel_row backend) run (row # rows)) =
          successCount run + errorCount run + length (row # rows)"
    using r(3) outs(3) by simp
  ultimately show ?case by blast
qed

lemma excel_loop_stored:
  "g \<in> set (grades_tbl (db_after (foldl (excel_row backend) run rows))) \<Longrightarrow>
     g \<in> set (grades_tbl (db_after run)) \<or> letter_grade g = getLetterGrade (score g)"
proof (induction rows arbitrary: run)
  case Nil
  then show ?case by simp
next
  case (Cons row rows)
  from Cons.IH[of "excel_row backend run row"] Cons.prems
  have "g \<in> set (grades_tbl (db_after (excel_row backend run row))) \<or>
        letter_grade g = getLetterGrade (score g)" by simp
  with excel_row_stored[of g backend run row] show ?case by blast
qed

lemma fail_row_result:
  "success (stats (fail_row run)) = success (stats run)"
  "failed (stats (fail_row run)) = failed (stats run) + 1"
  "csv_db (fail_row run) = csv_db run"
  by (simp_all add: fail_row_def)

lemma csv_row_count:
  "success (stats (csv_row pf backend run row)) + failed (stats (csv_row pf backend run row)) =
     success (stats run) + failed (stats run) + 1"
  by (simp add: csv_row_def Let_def fail_row_result split: option.splits upsert_result.splits)

lemma csv_row_stored:
  assumes "g \<in> set (grades_tbl (csv_db (csv_row pf backend run row)))"
  shows "g \<in> set (grades_tbl (csv_db run)) \<or>
         (letter_grade g = getLetterGrade_csv (score g) \<and> score g = pf (score_text row) \<and>
          \<not> num_falsy (score g))"
  using assms set_upsert
  by (fastforce simp: csv_row_def Let_def fail_row_result
      split: option.splits upsert_result.splits if_splits)

lemma csv_row_falsy:
  "num_falsy (pf (score_text row)) \<Longrightarrow> csv_row pf backend run row = fail_row run"
  by (simp add: csv_row_def Let_def)

lemma csv_loop_count:
  "success (stats (foldl (csv_row pf backend) run rows)) +
     failed (stats (foldl (csv_row pf backend) run rows)) =
   success (stats run) + failed (stats run) + length rows"
  by (induction rows arbitrary: run) (simp_all add: csv_row_count)

lemma csv_loop_stored:
  "g \<in> set (grades_tbl (csv_db (foldl (csv_row pf backend) run rows))) \<Longrightarrow>
     g \<in> set (grades_tbl (csv_db run)) \<or>
     (letter_grade g = getLetterGrade_csv (score g) \<and> \<not> num_falsy (score g))"
proof (induction rows arbitrary: run)
  case Nil
  then show ?case by simp
next
  case (Cons row rows)
  from Cons.IH[of "csv_row pf backend run row"] Cons.prems
  have "g \<in> set (grades_tbl (csv_db (csv_row pf backend run row))) \<or>
        (letter_grade g = getLetterGrade_csv (score g) \<and> \<not> num_falsy (score g))" by simp
  with csv_row_stored[of g pf backend run row] show ?case by blast
qed

lemma csv_example_eval:
  "handleUpload_csv parseFloat_digits always_stored up_db
     [csv_line ''001'' ''IF101'' ''0'', csv_line ''001'' ''IF101'' ''80''] =
   \<lparr>stats = \<lparr>success = 1, failed = 1\<rparr>,
     csv_db = up_db\<lparr>grades_tbl :=
       [\<lparr>score = Fin 80, letter_grade = ''B+'', course_id = ''P'', student_id = ''X''\<rparr>]\<rparr>\<rparr>"
  by (simp add: handleUpload_csv_def csv_row_def Let_def csv_line_def score_text_def js_or_def
      parseFloat_digits_def digit_of_def maybeSingle_def up_db_def always_stored_def fail_row_def
      getLetterGrade_csv_def)

lemma excel_example_eval:
  "handleUpload always_stored up_db
     [preview_row ''001'' (Fin 80), preview_row ''999'' (Fin 80), preview_row ''001'' (Fin 150)] =
   Some \<lparr>processedRows =
           [(preview_row ''001'' (Fin 80))\<lparr>status := Success\<rparr>,
            (preview_row ''999'' (Fin 80))\<lparr>status := Error,
               message := Some ''Mahasiswa dengan NIM 999 angkatan 2024 tidak ditemukan''\<rparr>,
            (preview_row ''001'' (Fin 150))\<lparr>status := Error,
               message := Some ''NIM atau nilai tidak valid''\<rparr>],
         successCount = 1, errorCount = 2,
         db_after = up_db\<lparr>grades_tbl :=
           [\<lparr>score = Fin 80, letter_grade = ''B+'', course_id = ''P'', student_id = ''X''\<rparr>]\<rparr>\<rparr>"
  by (simp add: handleUpload_def excel_row_def Let_def preview_row_def push_error_def shown_def
      maybeSingle_def up_db_def always_stored_def getLetterGrade_def)

lemma manual_example_eval:
  "gradesToSave parseFloat_digits ''P'' [(''X'', ''80''), (''Y'', [])] =
     [\<lparr>score = Fin 80, letter_grade = ''A-'', course_id = ''P'', student_id = ''X''\<rparr>]"
  by (simp add: gradesToSave_def parseFloat_digits_def digit_of_def calculateLetterGrade_def)

text \<open>
  Claim C9.  The hard-coded letter mappings differ: at the score 80 the upload
  components give \<open>B+\<close> and the manual entry gives \<open>A-\<close>.  The two upload components use
  the same mapping.  No path consults the grading-scale table: every grade row a path
  writes carries the letter its own hard-coded mapping gives for the row's score.
\<close>

theorem letter_mappings_differ:
  "(\<exists>s. 0 \<le> s \<and> s \<le> 100 \<and> getLetterGrade (Fin s) \<noteq> calculateLetterGrade (Fin s)) \<and>
   getLetterGrade (Fin 80) = ''B+'' \<and> getLetterGrade_csv (Fin 80) = ''B+'' \<and>
   calculateLetterGrade (Fin 80) = ''A-'' \<and>
   (\<forall>n. getLetterGrade_csv n = getLetterGrade n) \<and>
   (\<forall>run. handleUpload backend db preview = Some run \<longrightarrow>
      (\<forall>g\<in>set (grades_tbl (db_after run)).
         g \<in> set (grades_tbl db) \<or> letter_grade g = getLetterGrade (score g))) \<and>
   (\<forall>g\<in>set (grades_tbl (csv_db (handleUpload_csv parseFloat backend db csvData))).
      g \<in> set (grades_tbl db) \<or> letter_grade g = getLetterGrade_csv (score g)) \<and>
   (\<forall>g\<in>set (gradesToSave Number selectedCourse gradeInputs).
      letter_grade g = calculateLetterGrade (score g))"
proof -
  have v80: "getLetterGrade (Fin 80) = ''B+''" "getLetterGrade_csv (Fin 80) = ''B+''"
    "calculateLetterGrade (Fin 80) = ''A-''"
    by (simp_all add: getLetterGrade_def getLetterGrade_csv_def calculateLetterGrade_def)
  then have "(0::rat) \<le> 80 \<and> (80::rat) \<le> 100 \<and> getLetterGrade (Fin 80) \<noteq> calculateLetterGrade (Fin 80)"
    by simp
  then have ex: "\<exists>s. 0 \<le> s \<and> s \<le> 100 \<and> getLetterGrade (Fin s) \<noteq> calculateLetterGrade (Fin s)"
    by blast
  have same: "\<forall>n. getLetterGrade_csv n = getLetterGrade n"
    by (simp add: getLetterGrade_def getLetterGrade_csv_def)
  have excel: "\<forall>run. handleUpload backend db preview = Some run \<longrightarrow>
      (\<forall>g\<in>set (grades_tbl (db_after run)).
         g \<in> set (grades_tbl db) \<or> letter_grade g = getLetterGrade (score g))"
  proof (intro allI impI ballI)
    fix run g
    assume "handleUpload backend db preview = Some run" "g \<in> set (grades_tbl (db_after run))"
    then have "g \<in> set (grades_tbl (db_after (foldl (excel_row backend)
        \<lparr>processedRows = [], successCount = 0, errorCount = 0, db_after = db\<rparr> preview)))"
      by (auto simp: handleUpload_def split: if_splits)
    from excel_loop_stored[OF this]
    show "g \<in> set (grades_tbl db) \<or> letter_grade g = getLetterGrade (score g)" by simp
  qed
  have csv: "\<forall>g\<in>set (grades_tbl (csv_db (handleUpload_csv parseFloat backend db csvData))).
      g \<in> set (grades_tbl db) \<or> letter_grade g = getLetterGrade_csv (score g)"
  proof
    fix g assume "g \<in> set (grades_tbl (csv_db (handleUpload_csv parseFloat backend db csvData)))"
    then have "g \<in> set (grades_tbl (csv_db (foldl (csv_row parseFloat backend)
        \<lparr>stats = \<lparr>success = 0, failed = 0\<rparr>, csv_db = db\<rparr> csvData)))"
      by (simp add: handleUpload_csv_def)
    from csv_loop_stored[OF this]
    show "g \<in> set (grades_tbl db) \<or> letter_grade g = getLetterGrade_csv (score g)" by auto
  qed
  have manual: "\<forall>g\<in>set (gradesToSave Number selectedCourse gradeInputs).
      letter_grade g = calculateLetterGrade (score g)"
    by (auto simp: gradesToSave_def)
  from ex v80 same excel csv manual show ?thesis by blast
qed

theorem letter_mappings_differ_witness:
  "(\<exists>run. handleUpload always_stored up_db
            [preview_row ''001'' (Fin 80), preview_row ''999'' (Fin 80), preview_row ''001'' (Fin 150)]
          = Some run \<and>
          grades_tbl (db_after run) =
            [\<lparr>score = Fin 80, letter_grade = ''B+'', course_id = ''P'', student_id = ''X''\<rparr>]) \<and>
   letter_grade \<lparr>score = Fin 80, letter_grade = ''B+'', course_id = ''P'', student_id = ''X''\<rparr> =
     getLetterGrade (Fin 80) \<and>
   gradesToSave parseFloat_digits ''P'' [(''X'', ''80''), (''Y'', [])] =
     [\<lparr>score = Fin 80, letter_grade = ''A-'', course_id = ''P'', student_id = ''X''\<rparr>] \<and>
   calculateLetterGrade (Fin 80) = ''A-''"
proof -
  let ?g = "\<lparr>score = Fin 80, letter_grade = ''B+'', course_id = ''P'', student_id = ''X''\<rparr> :: number Grade"
  let ?rows = "[preview_row ''001'' (Fin 80), preview_row ''999'' (Fin 80), preview_row ''001'' (Fin 150)]"
  from excel_example_eval obtain run where
    run: "handleUpload always_stored up_db ?rows = Some run" "grades_tbl (db_after run) = [?g]"
    by simp
  note inst = letter_mappings_differ[of always_stored up_db ?rows parseFloat_digits "[]"
      parseFloat_digits "''P''" "[(''X'', ''80''), (''Y'', [])]"]
  from inst run have "?g \<in> set (grades_tbl up_db) \<or> letter_grade ?g = getLetterGrade (score ?g)"
    by fastforce
  then have a: "letter_grade ?g = getLetterGrade (Fin 80)" by (simp add: up_db_def)
  from inst have b: "calculateLetterGrade (Fin 80) = ''A-''" by blast
  from run a b manual_example_eval show ?thesis by blast
qed

text \<open>
  Claim C10.  In the CSV upload a row whose parsed score is \<open>0\<close> is counted as failed and
  nothing else happens for it; after any run, no grade row written by the run has the
  score \<open>0\<close>.
\<close>

theorem csv_zero_score_fails:
  "(parseFloat (score_text row) = Fin 0 \<longrightarrow>
      csv_row parseFloat backend run row =
        run\<lparr>stats := (stats run)\<lparr>failed := failed (stats run) + 1\<rparr>\<rparr>) \<and>
   (\<forall>g\<in>set (grades_tbl (csv_db (handleUpload_csv parseFloat backend db csvData))).
      g \<in> set (grades_tbl db) \<or> score g \<noteq> Fin 0)"
proof (rule conjI)
  show "parseFloat (score_text row) = Fin 0 \<longrightarrow>
      csv_row parseFloat backend run row =
        run\<lparr>stats := (stats run)\<lparr>failed := failed (stats run) + 1\<rparr>\<rparr>"
    using csv_row_falsy[of parseFloat row backend run] by (simp add: fail_row_def)
  show "\<forall>g\<in>set (grades_tbl (csv_db (handleUpload_csv parseFloat backend db csvData))).
      g \<in> set (grades_tbl db) \<or> score g \<noteq> Fin 0"
  proof
    fix g assume "g \<in> set (grades_tbl (csv_db (handleUpload_csv parseFloat backend db csvData)))"
    then have "g \<in> set (grades_tbl (csv_db (foldl (csv_row parseFloat backend)
        \<lparr>stats = \<lparr>success = 0, failed = 0\<rparr>, csv_db = db\<rparr> csvData)))"
      by (simp add: handleUpload_csv_def)
    from csv_loop_stored[OF this]
    show "g \<in> set (grades_tbl db) \<or> score g \<noteq> Fin 0" by auto
  qed
qed

theorem csv_zero_score_fails_witness:
  "parseFloat_digits (score_text (csv_line ''001'' ''IF101'' ''0'')) = Fin 0 \<and>
   csv_row parseFloat_digits always_stored \<lparr>stats = \<lparr>success = 0, failed = 0\<rparr>, csv_db = up_db\<rparr>
       (csv_line ''001'' ''IF101'' ''0'') =
     \<lparr>stats = \<lparr>success = 0, failed = 1\<rparr>, csv_db = up_db\<rparr> \<and>
   handleUpload_csv parseFloat_digits always_stored up_db
       [csv_line ''001'' ''IF101'' ''0'', csv_line ''001'' ''IF101'' ''80''] =
     \<lparr>stats = \<lparr>success = 1, failed = 1\<rparr>,
       csv_db = up_db\<lparr>grades_tbl :=
         [\<lparr>score = Fin 80, letter_grade = ''B+'', course_id = ''P'', student_id = ''X''\<rparr>]\<rparr>\<rparr> \<and>
   list_all (\<lambda>g. score g \<noteq> Fin 0)
     (grades_tbl (csv_db (handleUpload_csv parseFloat_digits always_stored up_db
        [csv_line ''001'' ''IF101'' ''0'', csv_line ''001'' ''IF101'' ''80''])))"
proof -
  let ?start = "\<lparr>stats = \<lparr>success = 0, failed = 0\<rparr>, csv_db = up_db\<rparr>"
  let ?batch = "[csv_line ''001'' ''IF101'' ''0'', csv_line ''001'' ''IF101'' ''80'']"
  note inst = csv_zero_score_fails[of parseFloat_digits "csv_line ''001'' ''IF101'' ''0''"
      always_stored ?start up_db ?batch]
  have z: "parseFloat_digits (score_text (csv_line ''001'' ''IF101'' ''0'')) = Fin 0"
    by (simp add: score_text_def csv_line_def js_or_def parseFloat_digits_def digit_of_def)
  from inst z
  have one: "csv_row parseFloat_digits always_stored ?start (csv_line ''001'' ''IF101'' ''0'') =
     \<lparr>stats = \<lparr>success = 0, failed = 1\<rparr>, csv_db = up_db\<rparr>"
    by simp
  have "grades_tbl up_db = []" by (simp add: up_db_def)
  with inst have "\<forall>g\<in>set (grades_tbl (csv_db (handleUpload_csv parseFloat_digits always_stored
      up_db ?batch))). score g \<noteq> Fin 0" by simp
  then have all: "list_all (\<lambda>g. score g \<noteq> Fin 0)
     (grades_tbl (csv_db (handleUpload_csv parseFloat_digits always_stored up_db ?batch)))"
    by (simp only: list_all_iff)
  from z one csv_example_eval all show ?thesis by blast
qed

text \<open>
  The claim C8 as the specification states it fails in the CSV upload: a row with an
  unknown student and a row with an unknown course give the same result, one failed row
  and no reason; and a row with the out-of-range score 150 is not rejected but stored
  (with the letter \<open>A\<close>) when the backend accepts it.
\<close>

theorem csv_reason_counterexample:
  "handleUpload_csv parseFloat_digits always_stored up_db [csv_line ''999'' ''IF101'' ''80''] =
     \<lparr>stats = \<lparr>success = 0, failed = 1\<rparr>, csv_db = up_db\<rparr> \<and>
   handleUpload_csv parseFloat_digits always_stored up_db [csv_line ''001'' ''ZZ999'' ''80''] =
     \<lparr>stats = \<lparr>success = 0, failed = 1\<rparr>, csv_db = up_db\<rparr> \<and>
   parseFloat_digits (score_text (csv_line ''001'' ''IF101'' ''150'')) = Fin 150 \<and>
   handleUpload_csv parseFloat_digits always_stored up_db [csv_line ''001'' ''IF101'' ''150''] =
     \<lparr>stats = \<lparr>success = 1, failed = 0\<rparr>,
       csv_db = up_db\<lparr>grades_tbl :=
         [\<lparr>score = Fin 150, letter_grade = ''A'', course_id = ''P'', student_id = ''X''\<rparr>]\<rparr>\<rparr>"
  by (simp add: handleUpload_csv_def csv_row_def Let_def csv_line_def score_text_def js_or_def
      parseFloat_digits_def digit_of_def maybeSingle_def up_db_def always_stored_def fail_row_def
      getLetterGrade_csv_def)

lemma excel_row_invalid:
  "row_nim row = [] \<or> num_lt (row_score row) 0 \<or> num_gt (row_score row) 100 \<Longrightarrow>
     excel_row backend run row = push_error run row ''NIM atau nilai tidak valid''"
  by (simp add: excel_row_def)

lemma excel_row_no_student:
  "\<not> (row_nim row = [] \<or> num_lt (row_score row) 0 \<or> num_gt (row_score row) 100) \<Longrightarrow>
   filter (\<lambda>s. s_nim s = row_nim row \<and>
                s_angkatan s = (case row_angkatan row of None \<Rightarrow> [] | Some a \<Rightarrow> a))
     (students_tbl (db_after run)) = [] \<Longrightarrow>
   excel_row backend run row =
     push_error run row
       (''Mahasiswa dengan NIM '' @ row_nim row @ '' angkatan '' @ shown (row_angkatan row)
          @ '' tidak ditemukan'')"
  by (simp add: excel_row_def maybeSingle_def)

lemma excel_row_no_course:
  "\<not> (row_nim row = [] \<or> num_lt (row_score row) 0 \<or> num_gt (row_score row) 100) \<Longrightarrow>
   filter (\<lambda>s. s_nim s = row_nim row \<and>
                s_angkatan s = (case row_angkatan row of None \<Rightarrow> [] | Some a \<Rightarrow> a))
     (students_tbl (db_after run)) = [student] \<Longrightarrow> s_id student \<noteq> [] \<Longrightarrow>
   filter (\<lambda>c. c_code c = courseCode row) (courses_tbl (db_after run)) = [] \<Longrightarrow>
   excel_row backend run row =
     push_error run row (''Mata kuliah '' @ courseCode row @ '' tidak ditemukan'')"
  by (simp add: excel_row_def maybeSingle_def)

lemma csv_row_missing:
  "str_falsy (js_or (row ''NIM'') (row ''nim'')) \<or>
   str_falsy (js_or (row ''Kode Mata Kuliah'') (row ''course_code'')) \<or>
   num_falsy (pf (score_text row)) \<Longrightarrow>
     csv_row pf backend run row = fail_row run"
  by (simp add: csv_row_def Let_def)

lemma csv_row_no_student:
  "filter (\<lambda>s. Some (s_nim s) = js_or (row ''NIM'') (row ''nim'')) (students_tbl (csv_db run)) = [] \<Longrightarrow>
     csv_row pf backend run row = fail_row run"
  by (simp add: csv_row_def Let_def maybeSingle_def)

lemma csv_row_no_course:
  "filter (\<lambda>c. Some (c_code c) = js_or (row ''Kode Mata Kuliah'') (row ''course_code''))
     (courses_tbl (csv_db run)) = [] \<Longrightarrow>
     csv_row pf backend run row = fail_row run"
  by (simp add: csv_row_def Let_def maybeSingle_def split: option.splits)

lemma excel_row_rejects:
  "row_nim row = [] \<or> num_lt (row_score row) 0 \<or> num_gt (row_score row) 100 \<or>
   filter (\<lambda>s. s_nim s = row_nim row \<and>
                s_angkatan s = (case row_angkatan row of None \<Rightarrow> [] | Some a \<Rightarrow> a))
     (students_tbl (db_after run)) = [] \<or>
   filter (\<lambda>c. c_code c = courseCode row) (courses_tbl (db_after run)) = [] \<Longrightarrow>
   \<exists>msg. excel_row backend run row = push_error run row msg"
  by (auto simp: excel_row_def maybeSingle_def split: option.splits)

lemma csv_row_rejects:
  "str_falsy (js_or (row ''NIM'') (row ''nim'')) \<or>
   str_falsy (js_or (row ''Kode Mata Kuliah'') (row ''course_code'')) \<or>
   num_falsy (pf (score_text row)) \<or>
   filter (\<lambda>s. Some (s_nim s) = js_or (row ''NIM'') (row ''nim'')) (students_tbl (csv_db run)) = [] \<or>
   filter (\<lambda>c. Some (c_code c) = js_or (row ''Kode Mata Kuliah'') (row ''course_code''))
     (courses_tbl (csv_db run)) = [] \<Longrightarrow>
   csv_row pf backend run row = fail_row run"
  using csv_row_missing[of row pf backend run] csv_row_no_student[of row run pf backend]
    csv_row_no_course[of row run pf backend]
  by blast

text \<open>
  Claim C8, as amended.  No row stops a run.  The Excel upload returns one processed row
  for each row of the preview, in order, marked \<open>Success\<close> or \<open>Error\<close>, every \<open>Error\<close>
  with a message, and \<open>successCount + errorCount\<close> is the number of rows; a row with an
  empty NIM, a score below 0 or above 100, no student or no course is appended as an
  error with a message and nothing is written.  The CSV upload counts every row once,
  as success or as failed; a row with a missing NIM or course code, a score that reads
  as \<open>NaN\<close>, no student or no course is counted as failed and nothing is written.
\<close>

theorem upload_rows_processed:
  "(preview \<noteq> [] \<longrightarrow>
      (\<exists>run. handleUpload backend db preview = Some run \<and>
             list_all2 settled preview (processedRows run) \<and>
             successCount run + errorCount run = length preview)) \<and>
   success (stats (handleUpload_csv parseFloat backend db csvData)) +
     failed (stats (handleUpload_csv parseFloat backend db csvData)) = length csvData \<and>
   (row_nim row = [] \<or> num_lt (row_score row) 0 \<or> num_gt (row_score row) 100 \<or>
    filter (\<lambda>s. s_nim s = row_nim row \<and>
                 s_angkatan s = (case row_angkatan row of None \<Rightarrow> [] | Some a \<Rightarrow> a))
      (students_tbl (db_after run)) = [] \<or>
    filter (\<lambda>c. c_code c = courseCode row) (courses_tbl (db_after run)) = [] \<longrightarrow>
      (\<exists>msg. excel_row backend run row = push_error run row msg)) \<and>
   (str_falsy (js_or (line ''NIM'') (line ''nim'')) \<or>
    str_falsy (js_or (line ''Kode Mata Kuliah'') (line ''course_code'')) \<or>
    parseFloat (score_text line) = NaN \<or>
    filter (\<lambda>s. Some (s_nim s) = js_or (line ''NIM'') (line ''nim''))
      (students_tbl (csv_db crun)) = [] \<or>
    filter (\<lambda>c. Some (c_code c) = js_or (line ''Kode Mata Kuliah'') (line ''course_code''))
      (courses_tbl (csv_db crun)) = [] \<longrightarrow>
      csv_row parseFloat backend crun line = fail_row crun)"
proof -
  let ?start = "\<lparr>processedRows = [], successCount = 0, errorCount = 0, db_after = db\<rparr>"
  have excel: "\<exists>run. handleUpload backend db preview = Some run \<and>
             list_all2 settled preview (processedRows run) \<and>
             successCount run + errorCount run = length preview" if "preview \<noteq> []"
  proof -
    from excel_loop_result[of backend ?start preview] obtain outs where
      "processedRows (foldl (excel_row backend) ?start preview) = processedRows ?start @ outs"
      "list_all2 settled preview outs"
      "successCount (foldl (excel_row backend) ?start preview) +
         errorCount (foldl (excel_row backend) ?start preview) =
       successCount ?start + errorCount ?start + length preview" by blast
    with that show ?thesis by (simp add: handleUpload_def)
  qed
  have csv: "success (stats (handleUpload_csv parseFloat backend db csvData)) +
     failed (stats (handleUpload_csv parseFloat backend db csvData)) = length csvData"
    by (simp add: handleUpload_csv_def csv_loop_count)
  have nan: "num_falsy (parseFloat (score_text line))" if "parseFloat (score_text line) = NaN"
    using that by simp
  from excel csv nan excel_row_rejects[of row run backend]
    csv_row_rejects[of line parseFloat crun backend]
  show ?thesis by blast
qed

theorem upload_rows_processed_witness:
  "[preview_row ''001'' (Fin 80), preview_row ''999'' (Fin 80), preview_row ''001'' (Fin 150)] \<noteq> [] \<and>
   (\<exists>run. handleUpload always_stored up_db
            [preview_row ''001'' (Fin 80), preview_row ''999'' (Fin 80), preview_row ''001'' (Fin 150)]
          = Some run \<and>
          map (\<lambda>r. (status r, message r)) (processedRows run) =
            [(Success, None),
             (Error, Some ''Mahasiswa dengan NIM 999 angkatan 2024 tidak ditemukan''),
             (Error, Some ''NIM atau nilai tidak valid'')] \<and>
          successCount run + errorCount run = 3) \<and>
   num_gt (row_score (preview_row ''001'' (Fin 150))) 100 \<and>
   (\<exists>msg. excel_row always_stored
            \<lparr>processedRows = [], successCount = 0, errorCount = 0, db_after = up_db\<rparr>
            (preview_row ''001'' (Fin 150)) =
          push_error \<lparr>processedRows = [], successCount = 0, errorCount = 0, db_after = up_db\<rparr>
            (preview_row ''001'' (Fin 150)) msg) \<and>
   parseFloat_digits (score_text (csv_line ''001'' ''IF101'' ''x'')) = NaN \<and>
   csv_row parseFloat_digits always_stored \<lparr>stats = \<lparr>success = 0, failed = 0\<rparr>, csv_db = up_db\<rparr>
       (csv_line ''001'' ''IF101'' ''x'') =
     \<lparr>stats = \<lparr>success = 0, failed = 1\<rparr>, csv_db = up_db\<rparr>"
proof -
  let ?rows = "[preview_row ''001'' (Fin 80), preview_row ''999'' (Fin 80), preview_row ''001'' (Fin 150)]"
  let ?start = "\<lparr>processedRows = [], successCount = 0, errorCount = 0, db_after = up_db\<rparr>"
  let ?cstart = "\<lparr>stats = \<lparr>success = 0, failed = 0\<rparr>, csv_db = up_db\<rparr>"
  note inst = upload_rows_processed[of ?rows always_stored up_db parseFloat_digits "[]"
      "preview_row ''001'' (Fin 150)" ?start "csv_line ''001'' ''IF101'' ''x''" ?cstart]
  have ne: "?rows \<noteq> []" by simp
  from inst ne obtain run where
    run: "handleUpload always_stored up_db ?rows = Some run"
      "successCount run + errorCount run = length ?rows" by blast
  have "map (\<lambda>r. (status r, message r)) (processedRows run) =
            [(Success, None),
             (Error, Some ''Mahasiswa dengan NIM 999 angkatan 2024 tidak ditemukan''),
             (Error, Some ''NIM atau nilai tidak valid'')]"
    using run(1) unfolding excel_example_eval by (auto simp: preview_row_def)
  with run have a: "\<exists>run. handleUpload always_stored up_db ?rows = Some run \<and>
          map (\<lambda>r. (status r, message r)) (processedRows run) =
            [(Success, None),
             (Error, Some ''Mahasiswa dengan NIM 999 angkatan 2024 tidak ditemukan''),
             (Error, Some ''NIM atau nilai tidak valid'')] \<and>
          successCount run + errorCount run = 3" by auto
  have big: "num_gt (row_score (preview_row ''001'' (Fin 150))) 100"
    by (simp add: preview_row_def)
  with inst have b: "\<exists>msg. excel_row always_stored ?start (preview_row ''001'' (Fin 150)) =
          push_error ?start (preview_row ''001'' (Fin 150)) msg" by blast
  have nan: "parseFloat_digits (score_text (csv_line ''001'' ''IF101'' ''x'')) = NaN"
    by (simp add: score_text_def csv_line_def js_or_def parseFloat_digits_def digit_of_def)
  with inst have "csv_row parseFloat_digits always_stored ?cstart (csv_line ''001'' ''IF101'' ''x'') =
      fail_row ?cstart" by blast
  then have c: "csv_row parseFloat_digits always_stored ?cstart (csv_line ''001'' ''IF101'' ''x'') =
      \<lparr>stats = \<lparr>success = 0, failed = 1\<rparr>, csv_db = up_db\<rparr>"
    by (simp add: fail_row_def)
  from ne a big b nan c show ?thesis by blast
qed

end
